theory Spec2Isabelle
  imports Complex_Main "HOL-Library.Word" "HOL-Library.Sublist"
begin

section \<open>JavaScript strings\<close>

text \<open>
  A JavaScript string is a sequence of 16-bit code units. The library functions the two
  modules \<^verbatim>\<open>vectorStore.ts\<close> and \<^verbatim>\<open>rfpAnalyzer.ts\<close> call are modelled on such sequences:
  \<^verbatim>\<open>trim\<close>, \<^verbatim>\<open>toLowerCase\<close>, \<^verbatim>\<open>indexOf\<close>, \<^verbatim>\<open>includes\<close>, \<^verbatim>\<open>substring\<close> and \<^verbatim>\<open>split\<close>.
  String literals of the source are written \<open>js ''...''\<close>.
\<close>

type_synonym jschar = "16 word"
type_synonym jsstring = "jschar list"

definition js :: "string \<Rightarrow> jsstring" where
  "js s = map of_char s"

text \<open>
  The class \<^verbatim>\<open>\s\<close> of a regular expression and the characters \<^verbatim>\<open>trim\<close> strips are the same
  set: ECMAScript's WhiteSpace and LineTerminator code points, all in the basic plane.
\<close>

definition isWhitespace :: "jschar \<Rightarrow> bool" where
  "isWhitespace c =
     (c \<in> {0x09, 0x0A, 0x0B, 0x0C, 0x0D, 0x20, 0xA0, 0x1680, 0x2028, 0x2029, 0x202F,
            0x205F, 0x3000, 0xFEFF}
      \<or> (0x2000 \<le> c \<and> c \<le> 0x200A))"

definition isDigit :: "jschar \<Rightarrow> bool" where
  "isDigit c = (0x30 \<le> c \<and> c \<le> 0x39)"

definition trim :: "jsstring \<Rightarrow> jsstring" where
  "trim s = rev (dropWhile isWhitespace (rev (dropWhile isWhitespace s)))"

text \<open>
  \<^verbatim>\<open>toLowerCase\<close> is modelled on the letters A to Z; every other code unit is left as it
  is (the Unicode case mappings outside ASCII are not modelled).
\<close>

definition lowerChar :: "jschar \<Rightarrow> jschar" where
  "lowerChar c = (if 0x41 \<le> c \<and> c \<le> 0x5A then c + 0x20 else c)"

definition toLowerCase :: "jsstring \<Rightarrow> jsstring" where
  "toLowerCase s = map lowerChar s"

text \<open>
  \<^verbatim>\<open>s.indexOf(pat, fromIndex)\<close>: the position is clamped into \<open>[0, length s]\<close>; the result
  is the least index at or after it where \<open>pat\<close> occurs, or \<open>-1\<close>.
\<close>

fun findFrom :: "jsstring \<Rightarrow> jsstring \<Rightarrow> nat \<Rightarrow> int" where
  "findFrom pat [] k = (if pat = [] then int k else -1)"
| "findFrom pat (c # cs) k = (if prefix pat (c # cs) then int k else findFrom pat cs (Suc k))"

definition indexOf :: "jsstring \<Rightarrow> jsstring \<Rightarrow> int \<Rightarrow> int" where
  "indexOf s pat fromIndex =
     (let p = nat (min (max fromIndex 0) (int (length s)))
      in findFrom pat (drop p s) p)"

definition includes_str :: "jsstring \<Rightarrow> jsstring \<Rightarrow> bool" where
  "includes_str s pat = (indexOf s pat 0 \<noteq> -1)"

text \<open>
  \<^verbatim>\<open>s.substring(a, b)\<close>: both indices are clamped into \<open>[0, length s]\<close> and swapped when the
  first is the larger one.
\<close>

definition substring :: "jsstring \<Rightarrow> int \<Rightarrow> int \<Rightarrow> jsstring" where
  "substring s a b =
     (let n = int (length s);
          a' = min (max a 0) n;
          b' = min (max b 0) n;
          lo = min a' b';
          hi = max a' b'
      in take (nat (hi - lo)) (drop (nat lo) s))"

text \<open>\<^verbatim>\<open>s.split(sep)\<close> for a separator of one code unit (the source splits on \<^verbatim>\<open>'\n'\<close>).\<close>

fun split_char :: "jschar \<Rightarrow> jsstring \<Rightarrow> jsstring list" where
  "split_char sep [] = [[]]"
| "split_char sep (c # cs) =
     (if c = sep then [] # split_char sep cs
      else (case split_char sep cs of
              [] \<Rightarrow> [[c]]
            | w # ws \<Rightarrow> (c # w) # ws))"

definition splitLines :: "jsstring \<Rightarrow> jsstring list" where
  "splitLines s = split_char 0x0A s"

text \<open>
  \<^verbatim>\<open>s.split(/[.;]\s+/)\<close>: a separator is a full stop or a semicolon together with the whole
  run of white space after it, which has at least one character.
\<close>

function splitSections :: "jsstring \<Rightarrow> jsstring list" where
  "splitSections [] = [[]]"
| "splitSections (c # cs) =
     (if (c = of_char CHR ''.'' \<or> c = of_char CHR '';'') \<and> cs \<noteq> [] \<and> isWhitespace (hd cs)
      then [] # splitSections (dropWhile isWhitespace cs)
      else (case splitSections cs of
              [] \<Rightarrow> [[c]]
            | w # ws \<Rightarrow> (c # w) # ws))"
  by pat_completeness auto
termination
  by (relation "measure length") (auto simp: length_dropWhile_le less_Suc_eq_le)

section \<open>JavaScript numbers\<close>

text \<open>
  A JavaScript number is a binary64 floating-point number. A finite number is modelled
  as the real it denotes, and an arithmetic operation as the exact operation followed by
  \<open>toDouble\<close>, the rounding to the nearest binary64 number, ties to the even significand:
  \<open>quantumExp x\<close> is the exponent of the spacing of the binary64 numbers around \<open>x\<close> (53
  significant bits, subnormal below \<open>2^-1022\<close>), and \<open>x\<close> is rounded to a multiple of that
  spacing. \<^verbatim>\<open>NaN\<close>, the infinities and overflow are not modelled.
\<close>

definition roundHalfEven :: "real \<Rightarrow> int" where
  "roundHalfEven t =
     (if t - of_int \<lfloor>t\<rfloor> < 1/2 then \<lfloor>t\<rfloor>
      else if 1/2 < t - of_int \<lfloor>t\<rfloor> then \<lfloor>t\<rfloor> + 1
      else if even \<lfloor>t\<rfloor> then \<lfloor>t\<rfloor> else \<lfloor>t\<rfloor> + 1)"

definition quantumExp :: "real \<Rightarrow> int" where
  "quantumExp x = max (\<lfloor>log 2 \<bar>x\<bar>\<rfloor> - 52) (- 1074)"

definition toDouble :: "real \<Rightarrow> real" where
  "toDouble x =
     sgn x * (of_int (roundHalfEven (\<bar>x\<bar> / 2 powi quantumExp x)) * 2 powi quantumExp x)"

text \<open>
  The conversion of a number to an integer index that \<^verbatim>\<open>indexOf\<close> and \<^verbatim>\<open>substring\<close> apply
  to their arguments: the fraction is dropped.
\<close>

definition toInteger :: "real \<Rightarrow> int" where
  "toInteger x = (if 0 \<le> x then \<lfloor>x\<rfloor> else \<lceil>x\<rceil>)"

section \<open>Document processing (vectorStore.ts, DocumentProcessor)\<close>

text \<open>
  \<^verbatim>\<open>s.replace(/X+/g, ' ')\<close> for a character class \<open>X\<close>: every maximal run of characters of
  the class becomes one space.
\<close>

function replaceRuns :: "(jschar \<Rightarrow> bool) \<Rightarrow> jsstring \<Rightarrow> jsstring" where
  "replaceRuns P [] = []"
| "replaceRuns P (c # cs) =
     (if P c then 0x20 # replaceRuns P (dropWhile P cs) else c # replaceRuns P cs)"
  by pat_completeness auto
termination
  by (relation "measure (\<lambda>(P, s). length s)") (auto simp: length_dropWhile_le less_Suc_eq_le)

text \<open>
  \<^verbatim>\<open>cleanText\<close>: the three replacements (\<^verbatim>\<open>/\s+/g\<close>, \<^verbatim>\<open>/\n+/g\<close>, \<^verbatim>\<open>/\t+/g\<close>) in the source's
  order, then \<^verbatim>\<open>trim\<close>.
\<close>

definition cleanText :: "jsstring \<Rightarrow> jsstring" where
  "cleanText s =
     trim (replaceRuns (\<lambda>c. c = 0x09)
            (replaceRuns (\<lambda>c. c = 0x0A)
              (replaceRuns isWhitespace s)))"

text \<open>
  \<^verbatim>\<open>chunkDocument(text, chunkSize = 1000, overlap = 200)\<close>, first at sizes that are
  integers, as character counts are: the sizes are integers (they may be negative);
  indices are integers as well, since \<^verbatim>\<open>endIndex - overlap\<close> is computed before any
  clamping. \<open>breakPoints\<close> is the sorted array of the positions found for the three sentence
  terminators; \<open>chunkEnd\<close> is the value of \<^verbatim>\<open>endIndex\<close> when the chunk is pushed. The
  function at sizes that are any numbers follows below (\<open>chunkDocumentNumber\<close>).
\<close>

definition breakPoints :: "jsstring \<Rightarrow> int \<Rightarrow> int list" where
  "breakPoints s endIndex =
     sort (filter (\<lambda>point. point \<noteq> -1)
       [indexOf s (js ''.'') endIndex, indexOf s (js ''?'') endIndex,
        indexOf s (js ''!'') endIndex])"

definition chunkEnd :: "jsstring \<Rightarrow> int \<Rightarrow> int \<Rightarrow> int" where
  "chunkEnd s chunkSize startIndex =
     (let endIndex = startIndex + chunkSize
      in if endIndex < int (length s)
         then (case breakPoints s endIndex of
                 b # _ \<Rightarrow>
                   if b - endIndex < 100 then b + 1
                   else (let nextSpace = indexOf s (js '' '') endIndex
                         in if nextSpace \<noteq> -1 \<and> nextSpace - endIndex < 50
                            then nextSpace else endIndex)
               | [] \<Rightarrow>
                   (let nextSpace = indexOf s (js '' '') endIndex
                    in if nextSpace \<noteq> -1 \<and> nextSpace - endIndex < 50
                       then nextSpace else endIndex))
         else endIndex)"

text \<open>
  The \<^verbatim>\<open>while (startIndex < text.length)\<close> loop. Nothing in the loop bounds the number of
  iterations, so the model is a partial function: \<open>None\<close> stands for a loop that never
  ends.
\<close>

partial_function (option) chunkLoop ::
  "jsstring \<Rightarrow> int \<Rightarrow> int \<Rightarrow> int \<Rightarrow> jsstring list \<Rightarrow> jsstring list option" where
  "chunkLoop s chunkSize overlap startIndex chunks =
     (if startIndex < int (length s)
      then (let endIndex = chunkEnd s chunkSize startIndex
            in chunkLoop s chunkSize overlap (endIndex - overlap)
                 (chunks @ [trim (substring s startIndex endIndex)]))
      else Some chunks)"

declare chunkLoop.simps [code]

definition chunkDocument :: "jsstring \<Rightarrow> int \<Rightarrow> int \<Rightarrow> jsstring list option" where
  "chunkDocument s chunkSize overlap =
     (if int (length s) \<le> chunkSize then Some [s]
      else chunkLoop s chunkSize overlap 0 [])"

text \<open>
  \<^verbatim>\<open>chunkDocument\<close> at sizes of the declared type \<^verbatim>\<open>number\<close>: the same statements, with
  \<^verbatim>\<open>startIndex\<close> and \<^verbatim>\<open>endIndex\<close> numbers, every sum and difference rounded, and the indices
  converted to integers where \<^verbatim>\<open>indexOf\<close> and \<^verbatim>\<open>substring\<close> take them.
\<close>

definition chunkEndNumber :: "jsstring \<Rightarrow> real \<Rightarrow> real \<Rightarrow> real" where
  "chunkEndNumber s chunkSize startIndex =
     (let endIndex = toDouble (startIndex + chunkSize)
      in if endIndex < real (length s)
         then (case breakPoints s (toInteger endIndex) of
                 b # _ \<Rightarrow>
                   if toDouble (of_int b - endIndex) < 100 then toDouble (of_int b + 1)
                   else (let nextSpace = indexOf s (js '' '') (toInteger endIndex)
                         in if nextSpace \<noteq> -1 \<and> toDouble (of_int nextSpace - endIndex) < 50
                            then of_int nextSpace else endIndex)
               | [] \<Rightarrow>
                   (let nextSpace = indexOf s (js '' '') (toInteger endIndex)
                    in if nextSpace \<noteq> -1 \<and> toDouble (of_int nextSpace - endIndex) < 50
                       then of_int nextSpace else endIndex))
         else endIndex)"

partial_function (option) chunkLoopNumber ::
  "jsstring \<Rightarrow> real \<Rightarrow> real \<Rightarrow> real \<Rightarrow> jsstring list \<Rightarrow> jsstring list option" where
  "chunkLoopNumber s chunkSize overlap startIndex chunks =
     (if startIndex < real (length s)
      then (let endIndex = chunkEndNumber s chunkSize startIndex
            in chunkLoopNumber s chunkSize overlap (toDouble (endIndex - overlap))
                 (chunks @ [trim (substring s (toInteger startIndex) (toInteger endIndex))]))
      else Some chunks)"

declare chunkLoopNumber.simps [code]

definition chunkDocumentNumber :: "jsstring \<Rightarrow> real \<Rightarrow> real \<Rightarrow> jsstring list option" where
  "chunkDocumentNumber s chunkSize overlap =
     (if real (length s) \<le> chunkSize then Some [s]
      else chunkLoopNumber s chunkSize overlap 0 [])"

section \<open>The vector store (vectorStore.ts, VectorStore)\<close>

text \<open>
  The Chroma client and the collection handle it returns are an external library. Each
  of their methods is a parameter of the model: a function giving the outcome of the
  call, either the message of the error the call throws (\<open>Inl\<close>) or its value (\<open>Inr\<close>).
  The server's state behind a handle is not modelled.
\<close>

datatype error = NotInitialized | ClientFailure string

type_synonym metadata = "(jsstring \<times> jsstring) list"

record document =
  doc_id :: jsstring
  content :: jsstring
  metadata :: "metadata option"

record queryResponse =
  ids :: "jsstring list list"
  documents :: "jsstring option list list option"
  metadatas :: "metadata option list list option"
  distances :: "real option list list option"

record collection =
  coll_add :: "jsstring list \<Rightarrow> jsstring list \<Rightarrow> metadata list \<Rightarrow> string + unit"
  coll_query :: "jsstring \<Rightarrow> int \<Rightarrow> string + queryResponse"
  coll_count :: "string + nat"

record client =
  getCollection :: "jsstring \<Rightarrow> string + collection"
  createCollection :: "jsstring \<Rightarrow> string + collection"
  client_deleteCollection :: "jsstring \<Rightarrow> string + unit"

record vectorStore =
  client :: client
  collection :: "collection option"
  isInitialized :: bool

record searchResult =
  res_id :: jsstring
  res_content :: jsstring
  res_metadata :: metadata
  score :: real

text \<open>The constructor: no collection, not initialized.\<close>

definition newStore :: "client \<Rightarrow> vectorStore" where
  "newStore cl = \<lparr>client = cl, collection = None, isInitialized = False\<rparr>"

text \<open>
  \<^verbatim>\<open>initialize(collectionName = "rfp_documents")\<close>: nothing to do when the store is
  initialized; otherwise \<^verbatim>\<open>getCollection\<close>, and \<^verbatim>\<open>createCollection\<close> when that throws. Only
  an error of \<^verbatim>\<open>createCollection\<close> leaves the method. (\<^verbatim>\<open>initEmbeddingFunction\<close> catches every
  error itself and is left out.)
\<close>

definition initialize :: "vectorStore \<Rightarrow> jsstring \<Rightarrow> (error + unit) \<times> vectorStore" where
  "initialize st collectionName =
     (if isInitialized st then (Inr (), st)
      else (case getCollection (client st) collectionName of
              Inr c \<Rightarrow> (Inr (), st\<lparr>collection := Some c, isInitialized := True\<rparr>)
            | Inl _ \<Rightarrow>
                (case createCollection (client st) collectionName of
                   Inr c \<Rightarrow> (Inr (), st\<lparr>collection := Some c, isInitialized := True\<rparr>)
                 | Inl msg \<Rightarrow> (Inl (ClientFailure msg), st))))"

text \<open>
  The first two lines of \<^verbatim>\<open>addDocuments\<close>, \<^verbatim>\<open>similaritySearch\<close> and \<^verbatim>\<open>getCollectionCount\<close>:
  \<^verbatim>\<open>if (!this.isInitialized) await this.initialize();\<close>
  \<^verbatim>\<open>if (!this.collection) throw new Error("Collection not initialized");\<close>
\<close>

definition ensureCollection :: "vectorStore \<Rightarrow> (error + collection) \<times> vectorStore" where
  "ensureCollection st =
     (case (if \<not> isInitialized st then initialize st (js ''rfp_documents'') else (Inr (), st)) of
        (Inl e, st') \<Rightarrow> (Inl e, st')
      | (Inr _, st') \<Rightarrow>
          (case collection st' of
             None \<Rightarrow> (Inl NotInitialized, st')
           | Some c \<Rightarrow> (Inr c, st')))"


text \<open>\<^verbatim>\<open>xs[i]\<close>: the element, or \<^verbatim>\<open>undefined\<close> (\<open>None\<close>) out of range.\<close>

fun nth_opt :: "'a list \<Rightarrow> nat \<Rightarrow> 'a option" where
  "nth_opt [] i = None"
| "nth_opt (x # xs) 0 = Some x"
| "nth_opt (x # xs) (Suc i) = nth_opt xs i"

text \<open>
  The constant \<^verbatim>\<open>distance\<close> of the mapping in \<^verbatim>\<open>similaritySearch\<close>:
  \<^verbatim>\<open>results.distances && results.distances[0] ? results.distances[0][index] : 1\<close>.
  \<open>None\<close> is \<^verbatim>\<open>undefined\<close> or \<^verbatim>\<open>null\<close>. A distance is a number (\<^verbatim>\<open>NaN\<close> is not modelled).
\<close>

definition distanceAt :: "queryResponse \<Rightarrow> nat \<Rightarrow> real option" where
  "distanceAt results index =
     (case distances results of
        None \<Rightarrow> Some 1
      | Some [] \<Rightarrow> Some 1
      | Some (row # _) \<Rightarrow> (case nth_opt row index of Some (Some d) \<Rightarrow> Some d | _ \<Rightarrow> None))"

text \<open>
  \<^verbatim>\<open>results.documents?.[0]?.[index] || ""\<close> and
  \<^verbatim>\<open>results.metadatas?.[0]?.[index] || {}\<close>.
\<close>

definition contentAt :: "queryResponse \<Rightarrow> nat \<Rightarrow> jsstring" where
  "contentAt results index =
     (case documents results of
        Some (row # _) \<Rightarrow> (case nth_opt row index of Some (Some d) \<Rightarrow> d | _ \<Rightarrow> [])
      | _ \<Rightarrow> [])"

definition metadataAt :: "queryResponse \<Rightarrow> nat \<Rightarrow> metadata" where
  "metadataAt results index =
     (case metadatas results of
        Some (row # _) \<Rightarrow> (case nth_opt row index of Some (Some m) \<Rightarrow> m | _ \<Rightarrow> [])
      | _ \<Rightarrow> [])"

text \<open>\<^verbatim>\<open>distance || 0\<close>: an absent distance (and the distance 0) counts as 0.\<close>

definition orZero :: "real option \<Rightarrow> real" where
  "orZero distance = (case distance of None \<Rightarrow> 0 | Some d \<Rightarrow> d)"

text \<open>
  The callback of \<^verbatim>\<open>results.ids[0].map((id, index) => ...)\<close>, and the mapping itself: the
  results follow the first row of identifiers, in its order; there is none when the
  response has no row or an empty one. The score is the rounded difference
  \<^verbatim>\<open>1 - (distance || 0)\<close>.
\<close>

definition toResult :: "queryResponse \<Rightarrow> nat \<Rightarrow> jsstring \<Rightarrow> searchResult" where
  "toResult results index i =
     \<lparr>res_id = i,
      res_content = contentAt results index,
      res_metadata = metadataAt results index,
      score = toDouble (1 - orZero (distanceAt results index))\<rparr>"

definition mapResults :: "queryResponse \<Rightarrow> searchResult list" where
  "mapResults results =
     (case ids results of
        [] \<Rightarrow> []
      | row # _ \<Rightarrow>
          if length row > 0
          then map (\<lambda>index. toResult results index (row ! index)) [0..<length row]
          else [])"

definition similaritySearch ::
  "vectorStore \<Rightarrow> jsstring \<Rightarrow> int \<Rightarrow> (error + searchResult list) \<times> vectorStore" where
  "similaritySearch st query limit =
     (case ensureCollection st of
        (Inl e, st') \<Rightarrow> (Inl e, st')
      | (Inr c, st') \<Rightarrow>
          (case coll_query c query limit of
             Inl msg \<Rightarrow> (Inl (ClientFailure msg), st')
           | Inr results \<Rightarrow> (Inr (mapResults results), st')))"

definition deleteCollection :: "vectorStore \<Rightarrow> jsstring \<Rightarrow> (error + unit) \<times> vectorStore" where
  "deleteCollection st collectionName =
     (case client_deleteCollection (client st) collectionName of
        Inl msg \<Rightarrow> (Inl (ClientFailure msg), st)
      | Inr _ \<Rightarrow> (Inr (), st\<lparr>collection := None, isInitialized := False\<rparr>))"


section \<open>The analyzer (rfpAnalyzer.ts)\<close>

text \<open>
  The company profile. Each entry of \<^verbatim>\<open>experience\<close> is an object \<^verbatim>\<open>{years: n}\<close> with an
  integer \<open>n\<close>, listed in the order \<^verbatim>\<open>Object.values\<close> and \<^verbatim>\<open>Object.entries\<close> enumerate it.
\<close>

record CompanyDetails =
  companyName :: jsstring
  certifications :: "jsstring list"
  experience :: "(jsstring \<times> int) list"
  capabilities :: "jsstring list"
  registrations :: "jsstring list"

subsection \<open>Regular expressions of the analyzer\<close>

text \<open>
  A regular expression with the flag \<^verbatim>\<open>i\<close> whose alternatives are words of ASCII letters and
  spaces, such as \<^verbatim>\<open>/must have|required/i\<close>: the text matches when one of the alternatives
  occurs in it, letters compared without case. (Without the flag \<^verbatim>\<open>u\<close> a character outside
  ASCII never matches an ASCII letter.) The alternatives are given in lower case.
\<close>

definition matchesAnyCI :: "jsstring list \<Rightarrow> jsstring \<Rightarrow> bool" where
  "matchesAnyCI alternatives s = list_ex (\<lambda>p. includes_str (map lowerChar s) p) alternatives"

text \<open>
  \<^verbatim>\<open>/^[\...\-\*]/\<close>: the first character is one of the class. The class of the source file
  holds the code points U+00E2, U+20AC and U+00A2, the hyphen and the asterisk.
\<close>

definition isBulletLine :: "jsstring \<Rightarrow> bool" where
  "isBulletLine s =
     (case s of [] \<Rightarrow> False | c # _ \<Rightarrow> c \<in> {0xE2, 0x20AC, 0xA2, 0x2D, 0x2A})"

text \<open>\<^verbatim>\<open>/^\d+[\.\)]/\<close>: digits, at least one, then a full stop or a closing parenthesis.\<close>

definition isNumberedLine :: "jsstring \<Rightarrow> bool" where
  "isNumberedLine s =
     (takeWhile isDigit s \<noteq> [] \<and>
      (case dropWhile isDigit s of
         [] \<Rightarrow> False
       | c # _ \<Rightarrow> c = of_char CHR ''.'' \<or> c = of_char CHR '')''))"

text \<open>
  \<^verbatim>\<open>/(\d+)\s+years?\s+experience/i\<close>. \<open>matchYearsAt\<close> matches the expression at the start
  of its argument and returns the digits of group 1; every quantifier is greedy, and none
  can give a character back to what follows it (a digit is no white space, white space
  is no letter, and after \<^verbatim>\<open>year\<close> an \<^verbatim>\<open>s\<close> is no white space). \<open>experienceMatch\<close> is the
  leftmost match.
\<close>

definition matchYearsAt :: "jsstring \<Rightarrow> jsstring option" where
  "matchYearsAt s =
     (let digits = takeWhile isDigit s;
          r1 = dropWhile isDigit s;
          r2 = dropWhile isWhitespace r1;
          r3 = drop 4 r2;
          r4 = (case r3 of
                  [] \<Rightarrow> r3
                | c # cs \<Rightarrow> if lowerChar c = of_char CHR ''s'' then cs else r3);
          r5 = dropWhile isWhitespace r4
      in if digits \<noteq> [] \<and> takeWhile isWhitespace r1 \<noteq> []
            \<and> map lowerChar (take 4 r2) = js ''year''
            \<and> takeWhile isWhitespace r4 \<noteq> []
            \<and> map lowerChar (take 10 r5) = js ''experience''
         then Some digits else None)"

fun experienceMatch :: "jsstring \<Rightarrow> jsstring option" where
  "experienceMatch [] = None"
| "experienceMatch (c # cs) =
     (case matchYearsAt (c # cs) of
        Some digits \<Rightarrow> Some digits
      | None \<Rightarrow> experienceMatch cs)"

text \<open>
  \<^verbatim>\<open>parseInt\<close> on a string of decimal digits, as an exact integer (a JavaScript number is
  exact up to \<open>2^53\<close>).
\<close>

definition parseInt :: "jsstring \<Rightarrow> int" where
  "parseInt digits = foldl (\<lambda>acc c. acc * 10 + (uint c - 48)) 0 digits"

text \<open>
  \<^verbatim>\<open>/\d{1,2}\/\d{1,2}\/\d{2,4}/\<close>. \<open>digits12\<close> lists what can follow one or two digits, the
  longer match first; \<open>slash\<close> what can follow a slash. The last group needs two digits
  and takes up to four, which does not change whether the expression matches.
\<close>

definition digits12 :: "jsstring \<Rightarrow> jsstring list" where
  "digits12 s =
     (case s of
        [] \<Rightarrow> []
      | a # r \<Rightarrow>
          if isDigit a
          then (case r of
                  [] \<Rightarrow> [r]
                | b # r' \<Rightarrow> if isDigit b then [r', r] else [r])
          else [])"

definition slash :: "jsstring \<Rightarrow> jsstring list" where
  "slash s = (case s of [] \<Rightarrow> [] | c # r \<Rightarrow> if c = of_char CHR ''/'' then [r] else [])"

definition matchDateAt :: "jsstring \<Rightarrow> bool" where
  "matchDateAt s =
     list_ex (\<lambda>r. case r of a # b # _ \<Rightarrow> isDigit a \<and> isDigit b | _ \<Rightarrow> False)
       (concat (map slash (concat (map digits12 (concat (map slash (digits12 s)))))))"

fun hasDate :: "jsstring \<Rightarrow> bool" where
  "hasDate [] = False"
| "hasDate (c # cs) = (matchDateAt (c # cs) \<or> hasDate cs)"

text \<open>
  \<^verbatim>\<open>/\b(January|...|December)\b/i\<close>: a month name, letters compared without case, with no
  word character (\<^verbatim>\<open>[A-Za-z0-9_]\<close>) right before it and none right after it. \<open>monthScan\<close>
  carries the character before the current position.
\<close>

definition isWordChar :: "jschar \<Rightarrow> bool" where
  "isWordChar c =
     ((0x41 \<le> c \<and> c \<le> 0x5A) \<or> (0x61 \<le> c \<and> c \<le> 0x7A) \<or> isDigit c \<or> c = 0x5F)"

definition monthNames :: "jsstring list" where
  "monthNames = map js
     [''january'', ''february'', ''march'', ''april'', ''may'', ''june'', ''july'',
      ''august'', ''september'', ''october'', ''november'', ''december'']"

definition monthAt :: "jsstring \<Rightarrow> bool" where
  "monthAt s =
     list_ex (\<lambda>m. map lowerChar (take (length m) s) = m \<and>
                   (case drop (length m) s of [] \<Rightarrow> True | d # _ \<Rightarrow> \<not> isWordChar d))
       monthNames"

fun monthScan :: "jschar option \<Rightarrow> jsstring \<Rightarrow> bool" where
  "monthScan prev [] = False"
| "monthScan prev (c # cs) =
     (((case prev of None \<Rightarrow> True | Some p \<Rightarrow> \<not> isWordChar p) \<and> monthAt (c # cs))
      \<or> monthScan (Some c) cs)"

definition hasMonth :: "jsstring \<Rightarrow> bool" where
  "hasMonth s = monthScan None s"

subsection \<open>Eligibility\<close>

definition extractRequirements :: "jsstring \<Rightarrow> jsstring list" where
  "extractRequirements s =
     concat (map (\<lambda>line.
        let trimmedLine = trim line
        in if (isBulletLine trimmedLine \<or> isNumberedLine trimmedLine \<or>
               matchesAnyCI (map js [''must have'', ''required'', ''shall have'', ''minimum'',
                                     ''at least'']) trimmedLine)
              \<and> length trimmedLine > 10
           then [trimmedLine] else [])
       (splitLines s))"

text \<open>
  \<^verbatim>\<open>checkRequirementMet\<close> reads \<^verbatim>\<open>certifications\<close>, \<^verbatim>\<open>experience\<close> and \<^verbatim>\<open>capabilities\<close> of the
  profile; \<^verbatim>\<open>registrations\<close> is taken from the profile as well and never used.
\<close>

definition checkRequirementMet :: "CompanyDetails \<Rightarrow> jsstring \<Rightarrow> bool" where
  "checkRequirementMet company requirement =
     (if includes_str (toLowerCase requirement) (js ''certification'')
         \<or> includes_str (toLowerCase requirement) (js ''certified'')
      then list_ex (\<lambda>cert. includes_str (toLowerCase requirement) (toLowerCase cert))
             (certifications company)
      else (case experienceMatch requirement of
              Some digits \<Rightarrow>
                (let yearsRequired = parseInt digits
                 in list_ex (\<lambda>exp. snd exp \<ge> yearsRequired) (experience company))
            | None \<Rightarrow>
                list_ex (\<lambda>capability.
                    includes_str (toLowerCase requirement) (toLowerCase capability))
                  (capabilities company)))"

text \<open>A number in a template string: an integer in decimal notation.\<close>

fun digitsOf :: "nat \<Rightarrow> jsstring" where
  "digitsOf n = (if n < 10 then [0x30 + of_nat n]
                 else digitsOf (n div 10) @ [0x30 + of_nat (n mod 10)])"

definition showInt :: "int \<Rightarrow> jsstring" where
  "showInt i = (if i < 0 then js ''-'' @ digitsOf (nat (- i)) else digitsOf (nat i))"

text \<open>The line feed \<^verbatim>\<open>\n\<close> of the report templates.\<close>

definition nl :: jsstring where
  "nl = [0x0A]"

definition generateEligibilityReport ::
  "CompanyDetails \<Rightarrow> bool \<Rightarrow> jsstring list \<Rightarrow> jsstring \<Rightarrow> jsstring" where
  "generateEligibilityReport company eligible missingRequirements analysisText =
     js ''# Eligibility Analysis Report'' @ nl @ nl
     @ js ''## Overall Assessment: '' @ (if eligible then js ''ELIGIBLE'' else js ''NOT ELIGIBLE'')
     @ nl @ nl
     @ js ''## Company Qualifications'' @ nl @ nl
     @ js ''Company Name: '' @ companyName company @ nl @ nl
     @ js ''### Certifications'' @ nl
     @ (if length (certifications company) > 0
        then concat (map (\<lambda>cert. js ''- '' @ cert @ nl) (certifications company))
        else js ''- No certifications provided'' @ nl)
     @ nl @ js ''### Experience'' @ nl
     @ concat (map (\<lambda>(area, years). js ''- '' @ area @ js '': '' @ showInt years @ js '' years'' @ nl)
         (experience company))
     @ nl @ js ''## RFP Requirements Analysis'' @ nl @ nl
     @ (if length missingRequirements > 0
        then js ''### Missing Requirements'' @ nl @ nl
             @ concat (map (\<lambda>req. js ''- '' @ req @ nl) missingRequirements)
        else js ''All requirements appear to be met based on available information.'' @ nl)
     @ nl @ js ''## Raw Analysis'' @ nl @ nl
     @ analysisText"

record eligibilityResult =
  eligible :: bool
  missingRequirements :: "jsstring list"
  eligibilityReport :: jsstring

text \<open>
  The body of the loop over the requirements of one retrieved chunk: the state is the
  pair of \<^verbatim>\<open>missingRequirements\<close> and \<^verbatim>\<open>eligible\<close>.
\<close>

definition checkStep :: "CompanyDetails \<Rightarrow> jsstring list \<times> bool \<Rightarrow> jsstring \<Rightarrow> jsstring list \<times> bool" where
  "checkStep company acc req =
     (if \<not> checkRequirementMet company req then (fst acc @ [req], False) else acc)"

definition analyzeEligibility ::
  "CompanyDetails \<Rightarrow> vectorStore \<Rightarrow> (error + eligibilityResult) \<times> vectorStore" where
  "analyzeEligibility company st =
     (case similaritySearch st
             (js ''What are the mandatory eligibility requirements, certifications, and qualifications needed to bid on this RFP?'')
             10 of
        (Inl e, st') \<Rightarrow> (Inl e, st')
      | (Inr requirementResults, st') \<Rightarrow>
          (let acc = foldl (\<lambda>acc result.
                        foldl (checkStep company) acc (extractRequirements (res_content result)))
                      ([], True) requirementResults;
               analysisText =
                 (if length requirementResults > 0
                  then concat (map (\<lambda>result. res_content result @ nl @ nl) requirementResults)
                  else js ''No specific eligibility requirements found in the RFP.'')
           in (Inr \<lparr>eligible = snd acc,
                    missingRequirements = fst acc,
                    eligibilityReport =
                      generateEligibilityReport company (snd acc) (fst acc) analysisText\<rparr>,
               st')))"

subsection \<open>Submission requirements\<close>

definition extractFormatRequirements :: "jsstring \<Rightarrow> jsstring list" where
  "extractFormatRequirements s =
     (if matchesAnyCI (map js [''page limit'', ''font size'', ''margin'', ''spacing'', ''format'',
                               ''template'']) s
      then map trim
             (filter (matchesAnyCI (map js [''page'', ''font'', ''margin'', ''spacing'', ''format'',
                                            ''template'', ''size'', ''header'', ''footer'']))
                (splitLines s))
      else [])"

definition extractDocumentRequirements :: "jsstring \<Rightarrow> jsstring list" where
  "extractDocumentRequirements s =
     (if matchesAnyCI (map js [''submit'', ''include'', ''attach'', ''provide'', ''form'',
                               ''document'', ''certificate'']) s
      then map trim
             (filter (matchesAnyCI (map js [''submit'', ''include'', ''attach'', ''provide'',
                                            ''form'', ''document'', ''certificate'']))
                (splitLines s))
      else [])"

definition extractDeadlines :: "jsstring \<Rightarrow> jsstring list" where
  "extractDeadlines s =
     (if matchesAnyCI (map js [''due'', ''deadline'', ''by'', ''before'', ''date'', ''schedule'']) s
      then map trim
             (filter (\<lambda>line.
                  matchesAnyCI (map js [''due'', ''deadline'', ''by'', ''before'', ''date'',
                                        ''schedule'']) line
                  \<and> (hasDate line \<or> hasMonth line))
                (splitLines s))
      else [])"

text \<open>
  One section of the checklist: a box for every item, or the fallback line when there
  is no item.
\<close>

definition checklistItems :: "jsstring list \<Rightarrow> jsstring \<Rightarrow> jsstring" where
  "checklistItems items fallback =
     (if length items > 0
      then concat (map (\<lambda>item. js ''- [ ] '' @ item @ nl) items)
      else fallback @ nl)"

definition generateSubmissionChecklist ::
  "jsstring list \<Rightarrow> jsstring list \<Rightarrow> jsstring list \<Rightarrow> jsstring" where
  "generateSubmissionChecklist formatReqs docReqs deadlines =
     js ''# RFP Submission Checklist'' @ nl @ nl
     @ js ''## Important Deadlines'' @ nl @ nl
     @ checklistItems deadlines
         (js ''- [ ] No specific deadlines found - verify due date in the RFP'')
     @ nl @ js ''## Format Requirements'' @ nl @ nl
     @ checklistItems formatReqs
         (js ''- [ ] No specific format requirements found - check the RFP for details'')
     @ nl @ js ''## Required Documents'' @ nl @ nl
     @ checklistItems docReqs
         (js ''- [ ] No specific document requirements found - check the RFP for details'')
     @ nl @ js ''## Final Verification'' @ nl @ nl
     @ js ''- [ ] All forms completely filled out'' @ nl
     @ js ''- [ ] All required signatures included'' @ nl
     @ js ''- [ ] Correct number of copies prepared'' @ nl
     @ js ''- [ ] Proposal properly sealed and marked'' @ nl
     @ js ''- [ ] Delivery method arranged for on-time submission'' @ nl"

text \<open>\<^verbatim>\<open>[...new Set(xs)]\<close>: the first occurrence of every element, in order.\<close>

definition uniqueInOrder :: "jsstring list \<Rightarrow> jsstring list" where
  "uniqueInOrder xs = foldl (\<lambda>acc x. if x \<in> set acc then acc else acc @ [x]) [] xs"

record submissionResult =
  formatRequirements :: "jsstring list"
  documentRequirements :: "jsstring list"
  deadlines :: "jsstring list"
  submissionChecklist :: jsstring

definition extractSubmissionRequirements ::
  "vectorStore \<Rightarrow> (error + submissionResult) \<times> vectorStore" where
  "extractSubmissionRequirements st =
     (case similaritySearch st
             (js ''What are the submission requirements, document format, page limits, and deadlines for this RFP?'')
             10 of
        (Inl e, st') \<Rightarrow> (Inl e, st')
      | (Inr submissionResults, st') \<Rightarrow>
          (let formatReqs =
                 concat (map (\<lambda>result. extractFormatRequirements (res_content result))
                   submissionResults);
               docReqs =
                 concat (map (\<lambda>result. extractDocumentRequirements (res_content result))
                   submissionResults);
               dateReqs =
                 concat (map (\<lambda>result. extractDeadlines (res_content result))
                   submissionResults);
               checklist = generateSubmissionChecklist formatReqs docReqs dateReqs
           in (Inr \<lparr>formatRequirements = uniqueInOrder formatReqs,
                    documentRequirements = uniqueInOrder docReqs,
                    deadlines = uniqueInOrder dateReqs,
                    submissionChecklist = checklist\<rparr>,
               st')))"

subsection \<open>Contract risk heuristics\<close>

definition riskTerms :: "jsstring list" where
  "riskTerms = map js
     [''termination'', ''unilateral'', ''waive'', ''without cause'', ''sole discretion'',
      ''unlimited liability'', ''indemnification'', ''warranty'', ''liquidated damages'',
      ''penalties'', ''remedy'', ''exclusive'', ''limitation of liability'']"

text \<open>
  The body of the loop over the sections in \<^verbatim>\<open>extractRiskyClauses\<close>. The inner loop over
  the risk terms breaks at the first term the section contains, so its body runs once
  when some term occurs and never otherwise.
\<close>

definition flagSection :: "jsstring list \<Rightarrow> jsstring \<Rightarrow> jsstring list" where
  "flagSection riskyClauses section' =
     (if list_ex (\<lambda>term'. includes_str (toLowerCase section') term') riskTerms
      then (let trimmedSection = trim section' @ js ''.''
            in if length trimmedSection > 20 \<and> trimmedSection \<notin> set riskyClauses
               then riskyClauses @ [trimmedSection]
               else riskyClauses)
      else riskyClauses)"

definition extractRiskyClauses :: "jsstring \<Rightarrow> jsstring list" where
  "extractRiskyClauses s = foldl flagSection [] (splitSections s)"

definition highRiskTerms :: "jsstring list" where
  "highRiskTerms = map js
     [''unlimited liability'', ''indemnification'', ''without cause'', ''sole discretion'']"

definition mediumRiskTerms :: "jsstring list" where
  "mediumRiskTerms = map js
     [''termination'', ''warranty'', ''liquidated damages'', ''penalties'']"

definition assessRiskLevel :: "jsstring \<Rightarrow> jsstring" where
  "assessRiskLevel clause =
     (if list_ex (\<lambda>term'. includes_str (toLowerCase clause) term') highRiskTerms
      then js ''High''
      else if list_ex (\<lambda>term'. includes_str (toLowerCase clause) term') mediumRiskTerms
      then js ''Medium''
      else js ''Low'')"

section \<open>Auxiliary notions for the properties\<close>

text \<open>
  The shape of a string after \<^verbatim>\<open>/\s+/g\<close> has been replaced: every white-space character
  is a space and is not followed by another white-space character.
\<close>

fun collapsed :: "jsstring \<Rightarrow> bool" where
  "collapsed [] = True"
| "collapsed (c # r) =
     ((isWhitespace c \<longrightarrow> c = 0x20 \<and> (r = [] \<or> \<not> isWhitespace (hd r))) \<and> collapsed r)"

text \<open>
  A window is the pair of \<^verbatim>\<open>startIndex\<close> and \<^verbatim>\<open>endIndex\<close> of one iteration of the chunking
  loop; \<open>chunkOf\<close> is the chunk the loop pushes for it. \<open>stitch s pos ws\<close> concatenates, window
  after window, the part of the window's text that lies at or after \<open>pos\<close>, the position
  up to which the earlier windows have covered the text: the spans with their overlaps
  left out.
\<close>

definition chunkOf :: "jsstring \<Rightarrow> int \<times> int \<Rightarrow> jsstring" where
  "chunkOf s w = trim (substring s (fst w) (snd w))"


text \<open>The windows of the first \<open>n\<close> iterations of the loop, started at \<open>startIndex\<close>.\<close>

primrec windowsFuel :: "nat \<Rightarrow> jsstring \<Rightarrow> int \<Rightarrow> int \<Rightarrow> int \<Rightarrow> (int \<times> int) list" where
  "windowsFuel 0 s chunkSize overlap startIndex = []"
| "windowsFuel (Suc n) s chunkSize overlap startIndex =
     (if startIndex < int (length s)
      then (startIndex, chunkEnd s chunkSize startIndex)
             # windowsFuel n s chunkSize overlap (chunkEnd s chunkSize startIndex - overlap)
      else [])"

text \<open>
  A collection handle that answers every query with the same response, and a client that
  hands out one collection: the inputs of the concrete examples below.
\<close>

definition answeringCollection :: "queryResponse \<Rightarrow> collection" where
  "answeringCollection results =
     \<lparr>coll_add = (\<lambda>_ _ _. Inr ()), coll_query = (\<lambda>_ _. Inr results), coll_count = Inr 0\<rparr>"

definition localClient :: "collection \<Rightarrow> client" where
  "localClient c =
     \<lparr>getCollection = (\<lambda>_. Inr c), createCollection = (\<lambda>_. Inr c),
      client_deleteCollection = (\<lambda>_. Inr ())\<rparr>"


section \<open>Properties of the binary64 rounding\<close>

text \<open>
  Integers and dyadic numbers of at most 53 significant bits are rounded to themselves,
  the rounding is monotone, and \<open>1 + 2^-53\<close>, half way between 1 and the next number, is
  rounded to 1.
\<close>

lemma roundHalfEven_of_int: "roundHalfEven (of_int n) = n"
  by (simp add: roundHalfEven_def)

lemma roundHalfEven_bounds: "\<lfloor>t\<rfloor> \<le> roundHalfEven t" "roundHalfEven t \<le> \<lfloor>t\<rfloor> + 1"
  by (simp_all add: roundHalfEven_def)

lemma roundHalfEven_mono:
  assumes "s \<le> t"
  shows "roundHalfEven s \<le> roundHalfEven t"
proof (cases "\<lfloor>s\<rfloor> = \<lfloor>t\<rfloor>")
  case True
  with assms have "s - of_int \<lfloor>s\<rfloor> \<le> t - of_int \<lfloor>t\<rfloor>" by simp
  with True show ?thesis by (auto simp: roundHalfEven_def)
next
  case False
  with assms have "\<lfloor>s\<rfloor> + 1 \<le> \<lfloor>t\<rfloor>" using floor_mono[OF assms] by linarith
  with roundHalfEven_bounds(2)[of s] roundHalfEven_bounds(1)[of t] show ?thesis by linarith
qed

lemma two_powr_powi: "2 powr real_of_int k = 2 powi k" "2 powr (real_of_int k + 1) = 2 powi (k + 1)"
proof -
  show a: "2 powr real_of_int k = 2 powi k" for k by (rule powr_real_of_int') simp_all
  have "2 powr (real_of_int k + 1) = 2 powr real_of_int (k + 1)" by simp
  then show "2 powr (real_of_int k + 1) = 2 powi (k + 1)" by (simp only: a)
qed

lemma binade_bounds:
  assumes "0 < x"
  shows "2 powi \<lfloor>log 2 x\<rfloor> \<le> x" and "x < 2 powi (\<lfloor>log 2 x\<rfloor> + 1)"
proof -
  have "2 powr real_of_int \<lfloor>log 2 x\<rfloor> \<le> x \<and> x < 2 powr (real_of_int \<lfloor>log 2 x\<rfloor> + 1)"
    using floor_log_eq_powr_iff[of x 2 "\<lfloor>log 2 x\<rfloor>"] assms by simp
  then show "2 powi \<lfloor>log 2 x\<rfloor> \<le> x" and "x < 2 powi (\<lfloor>log 2 x\<rfloor> + 1)"
    by (simp_all only: two_powr_powi)
qed

lemma binade_unique:
  assumes "0 < x" and "2 powi k \<le> x" and "x < 2 powi (k + 1)"
  shows "\<lfloor>log 2 x\<rfloor> = k"
proof -
  have "2 powr real_of_int k \<le> x \<and> x < 2 powr (real_of_int k + 1)"
    using assms(2,3) by (simp only: two_powr_powi)
  then show ?thesis using floor_log_eq_powr_iff[of x 2 k] assms(1) by simp
qed

lemma floor_log_less:
  assumes "0 < x" and "x < 2 powi n"
  shows "\<lfloor>log 2 x\<rfloor> < n"
proof (rule ccontr)
  assume "\<not> \<lfloor>log 2 x\<rfloor> < n"
  then have "(2::real) powi n \<le> 2 powi \<lfloor>log 2 x\<rfloor>"
    by (intro power_int_increasing) simp_all
  with binade_bounds(1)[OF assms(1)] assms(2) show False by linarith
qed

lemma two_powi_split:
  assumes "k \<le> n"
  shows "(2::real) powi n = of_int (2 ^ nat (n - k)) * 2 powi k"
proof -
  define d where "d = nat (n - k)"
  have n: "n = int d + k" using assms by (simp add: d_def)
  have "(2::real) powi (int d + k) = 2 powi int d * 2 powi k" by (rule power_int_add) simp
  then have "(2::real) powi n = 2 ^ d * 2 powi k" by (simp only: n[symmetric] power_int_of_nat)
  then show ?thesis by (simp add: d_def)
qed

lemma toDouble_exact:
  assumes "\<bar>m\<bar> < 2 ^ 53" and "- 1074 \<le> k"
  shows "toDouble (of_int m * 2 powi k) = of_int m * 2 powi k"
proof (cases "m = 0")
  case True
  then show ?thesis by (simp add: toDouble_def)
next
  case False
  define x :: real where "x = of_int m * 2 powi k"
  define q where "q = quantumExp x"
  have ax: "\<bar>x\<bar> = of_int \<bar>m\<bar> * 2 powi k" by (simp add: x_def abs_mult)
  have pos: "0 < \<bar>x\<bar>" using False by (simp add: x_def)
  have "of_int \<bar>m\<bar> < (2::real) ^ 53" using assms(1) by (metis of_int_less_numeral_power_cancel_iff)
  then have "\<bar>x\<bar> < 2 ^ 53 * 2 powi k" unfolding ax by (intro mult_strict_right_mono) simp_all
  also have "\<dots> = 2 powi (53 + k)" by (subst power_int_add) simp_all
  finally have "\<lfloor>log 2 \<bar>x\<bar>\<rfloor> < 53 + k" using floor_log_less[OF pos] by blast
  then have qk: "q \<le> k" using assms(2) by (simp add: q_def quantumExp_def)
  have "\<bar>x\<bar> / 2 powi q = of_int (\<bar>m\<bar> * 2 ^ nat (k - q))"
    unfolding ax using two_powi_split[OF qk] by simp
  then have "roundHalfEven (\<bar>x\<bar> / 2 powi q) = \<bar>m\<bar> * 2 ^ nat (k - q)"
    by (simp only: roundHalfEven_of_int)
  then have "of_int (roundHalfEven (\<bar>x\<bar> / 2 powi q)) * 2 powi q = \<bar>x\<bar>"
    unfolding ax using two_powi_split[OF qk] by simp
  then have "toDouble x = sgn x * \<bar>x\<bar>" by (simp add: toDouble_def q_def)
  then show ?thesis by (simp add: x_def sgn_mult_abs)
qed

lemma toDouble_nonneg: "0 \<le> x \<Longrightarrow> 0 \<le> toDouble x"
proof -
  assume "0 \<le> x"
  then have "0 \<le> \<bar>x\<bar> / 2 powi quantumExp x" by simp
  then have "0 \<le> roundHalfEven (\<bar>x\<bar> / 2 powi quantumExp x)"
    using roundHalfEven_mono[of 0 "\<bar>x\<bar> / 2 powi quantumExp x"] roundHalfEven_of_int[of 0] by simp
  with \<open>0 \<le> x\<close> show ?thesis by (simp add: toDouble_def sgn_if)
qed

lemma toDouble_pos_mono:
  assumes "0 < x" and "x \<le> y"
  shows "toDouble x \<le> toDouble y"
proof -
  have y: "0 < y" using assms by simp
  define qx where "qx = quantumExp x"
  define qy where "qy = quantumExp y"
  have tx: "toDouble x = of_int (roundHalfEven (x / 2 powi qx)) * 2 powi qx"
    using assms(1) by (simp add: toDouble_def qx_def)
  have ty: "toDouble y = of_int (roundHalfEven (y / 2 powi qy)) * 2 powi qy"
    using y by (simp add: toDouble_def qy_def)
  have "log 2 x \<le> log 2 y" using assms by simp
  then have fl: "\<lfloor>log 2 x\<rfloor> \<le> \<lfloor>log 2 y\<rfloor>" by (rule floor_mono)
  then have qle: "qx \<le> qy" using assms(1) y by (simp add: qx_def qy_def quantumExp_def)
  show ?thesis
  proof (cases "qx = qy")
    case True
    have "x / 2 powi qy \<le> y / 2 powi qy" using assms(2) by (simp add: divide_right_mono)
    then have "roundHalfEven (x / 2 powi qy) \<le> roundHalfEven (y / 2 powi qy)"
      by (rule roundHalfEven_mono)
    then show ?thesis unfolding tx ty True by (simp add: mult_right_mono)
  next
    case False
    with qle have lt: "qx < qy" by simp
    then have qy_eq: "qy = \<lfloor>log 2 y\<rfloor> - 52" and qx_ge: "\<lfloor>log 2 x\<rfloor> - 52 \<le> qx"
      using assms(1) y by (auto simp: qx_def qy_def quantumExp_def)
    define B :: real where "B = 2 powi (qy + 52)"
    have By: "B \<le> y" using binade_bounds(1)[OF y] by (simp add: B_def qy_eq)
    have Bq: "B = of_int (2 ^ 52) * 2 powi qy"
      unfolding B_def using two_powi_split[of qy "qy + 52"] by simp
    have "of_int (2 ^ 52) \<le> y / 2 powi qy" using By unfolding Bq by (simp add: field_simps)
    then have "2 ^ 52 \<le> roundHalfEven (y / 2 powi qy)"
      using roundHalfEven_mono[of "of_int (2 ^ 52)" "y / 2 powi qy"] roundHalfEven_of_int[of "2 ^ 52"]
      by simp
    then have "of_int (2 ^ 52) \<le> (of_int (roundHalfEven (y / 2 powi qy)) :: real)" 
      by (metis of_int_le_iff)
    then have "B \<le> toDouble y" unfolding Bq ty by (intro mult_right_mono) simp_all
    moreover have "toDouble x \<le> B"
    proof -
      have "x < 2 powi (\<lfloor>log 2 x\<rfloor> + 1)" by (rule binade_bounds(2)[OF assms(1)])
      also have "\<dots> \<le> 2 powi (qy + 52)" using qx_ge lt by (intro power_int_increasing) simp_all
      finally have xB: "x \<le> B" by (simp add: B_def)
      have qxB: "qx \<le> qy + 52" using lt by simp
      have Bx: "B = of_int (2 ^ nat (qy + 52 - qx)) * 2 powi qx"
        unfolding B_def by (rule two_powi_split[OF qxB])
      have "x / 2 powi qx \<le> of_int (2 ^ nat (qy + 52 - qx))" using xB unfolding Bx by (simp add: field_simps)
      then have "roundHalfEven (x / 2 powi qx) \<le> 2 ^ nat (qy + 52 - qx)"
        using roundHalfEven_mono[of "x / 2 powi qx" "of_int (2 ^ nat (qy + 52 - qx))"]
          roundHalfEven_of_int[of "2 ^ nat (qy + 52 - qx)"] by simp
      then have "(of_int (roundHalfEven (x / 2 powi qx)) :: real) \<le> of_int (2 ^ nat (qy + 52 - qx))"
        by (metis of_int_le_iff)
      then show ?thesis unfolding tx Bx by (intro mult_right_mono) simp_all
    qed
    ultimately show ?thesis by linarith
  qed
qed

lemma toDouble_minus: "toDouble (- x) = - toDouble x"
  by (simp add: toDouble_def quantumExp_def)

lemma toDouble_mono:
  assumes "x \<le> y"
  shows "toDouble x \<le> toDouble y"
proof -
  consider "0 < x" | "x \<le> 0" "0 \<le> y" | "y < 0" by linarith
  then show ?thesis
  proof cases
    case 1
    then show ?thesis using assms by (rule toDouble_pos_mono)
  next
    case 2
    have "toDouble x \<le> 0" using toDouble_nonneg[of "- x"] 2(1) by (simp add: toDouble_minus)
    with toDouble_nonneg[OF 2(2)] show ?thesis by linarith
  next
    case 3
    then have "toDouble (- y) \<le> toDouble (- x)" using assms by (intro toDouble_pos_mono) simp_all
    then show ?thesis by (simp add: toDouble_minus)
  qed
qed

lemma toDouble_one: "toDouble 1 = 1"
  using toDouble_exact[of 1 0] by simp

lemma toDouble_zero: "toDouble 0 = 0"
  by (simp add: toDouble_def)

lemma toDouble_tie: "toDouble (2 powi (- 53) + 1) = 1"
proof -
  define x :: real where "x = 2 powi (- 53) + 1"
  have x: "0 < x" "2 powi 0 \<le> x" "x < 2 powi (0 + 1)" by (simp_all add: x_def)
  have "\<lfloor>log 2 x\<rfloor> = 0" by (rule binade_unique[OF x])
  then have q: "quantumExp x = - 52" using x(1) by (simp add: quantumExp_def)
  have d: "\<bar>x\<bar> / 2 powi (- 52) = 4503599627370496 + 1/2" by (simp add: x_def)
  have "roundHalfEven (4503599627370496 + 1/2) = 4503599627370496"
    by (simp add: roundHalfEven_def)
  then have "toDouble x = 1" using x(1) unfolding toDouble_def q d by simp
  then show ?thesis by (simp add: x_def)
qed

lemma toDouble_tiny: "toDouble (2 powi (- 53)) = 2 powi (- 53)"
  using toDouble_exact[of 1 "- 53"] by simp

lemma toInteger_of_int: "toInteger (of_int n) = n"
  by (simp add: toInteger_def)

lemma toDouble_of_int: "\<bar>n\<bar> < 2 ^ 53 \<Longrightarrow> toDouble (of_int n) = of_int n"
  using toDouble_exact[of n 0] by simp

lemma toDouble_three_quarters: "toDouble (3 / 4) = 3 / 4"
  using toDouble_exact[of 3 "- 2"] by simp

section \<open>Properties of the document processor\<close>

subsection \<open>cleanText is idempotent\<close>

lemma collapsed_replaceRuns: "collapsed (replaceRuns isWhitespace s)"
proof (induction "isWhitespace" s rule: replaceRuns.induct)
  case 1
  then show ?case by simp
next
  case (2 c cs)
  show ?case
  proof (cases "isWhitespace c")
    case True
    have "replaceRuns isWhitespace (dropWhile isWhitespace cs) = []
        \<or> \<not> isWhitespace (hd (replaceRuns isWhitespace (dropWhile isWhitespace cs)))"
    proof (cases "dropWhile isWhitespace cs")
      case Nil
      show ?thesis unfolding Nil by simp
    next
      case (Cons d ds)
      then have "\<not> isWhitespace d" using hd_dropWhile[of isWhitespace cs] by simp
      then show ?thesis by (simp add: Cons)
    qed
    with True 2 show ?thesis by simp
  next
    case False
    with 2 show ?thesis by simp
  qed
qed

lemma collapsed_fixed: "collapsed r \<Longrightarrow> replaceRuns isWhitespace r = r"
proof (induction r)
  case Nil
  then show ?case by simp
next
  case (Cons c r)
  then have r: "replaceRuns isWhitespace r = r" by simp
  show ?case
  proof (cases "isWhitespace c")
    case True
    with Cons.prems have "c = 0x20" and "r = [] \<or> \<not> isWhitespace (hd r)" by auto
    then have "dropWhile isWhitespace r = r" by (simp add: dropWhile_eq_self_iff)
    with True \<open>c = 0x20\<close> r show ?thesis by simp
  next
    case False
    with r show ?thesis by simp
  qed
qed

lemma collapsed_space: "collapsed r \<Longrightarrow> c \<in> set r \<Longrightarrow> isWhitespace c \<Longrightarrow> c = 0x20"
  by (induction r) auto

lemma replaceRuns_none: "\<forall>c \<in> set r. \<not> Q c \<Longrightarrow> replaceRuns Q r = r"
  by (induction r) auto

lemma collapsed_suffix: "collapsed (u @ v) \<Longrightarrow> collapsed v"
  by (induction u) auto

lemma collapsed_prefix: "collapsed (u @ v) \<Longrightarrow> collapsed u"
  by (induction u) (auto simp: hd_append)

lemma dropEnd_prefix: "\<exists>w. u = rev (dropWhile P (rev u)) @ w"
proof -
  have "rev u = takeWhile P (rev u) @ dropWhile P (rev u)" by simp
  then have "rev (rev u) = rev (takeWhile P (rev u) @ dropWhile P (rev u))" by simp
  then show ?thesis by (metis rev_append rev_rev_ident)
qed

lemma collapsed_trim: "collapsed r \<Longrightarrow> collapsed (trim r)"
proof -
  assume c: "collapsed r"
  have "r = takeWhile isWhitespace r @ dropWhile isWhitespace r" by simp
  with c have "collapsed (dropWhile isWhitespace r)" by (metis collapsed_suffix)
  moreover obtain w where "dropWhile isWhitespace r = trim r @ w"
    unfolding trim_def using dropEnd_prefix by blast
  ultimately show ?thesis using collapsed_prefix by metis
qed

lemma trim_idem: "trim (trim r) = trim r"
proof -
  define u where "u = dropWhile isWhitespace r"
  define t where "t = rev (dropWhile isWhitespace (rev u))"
  obtain w where w: "u = t @ w" unfolding t_def using dropEnd_prefix by blast
  have "t = [] \<or> \<not> isWhitespace (hd t)"
  proof (cases "t = []")
    case False
    then have "hd t = hd u" "u \<noteq> []" using w by auto
    then show ?thesis unfolding u_def using hd_dropWhile by metis
  qed simp
  then have "dropWhile isWhitespace t = t" by (simp add: dropWhile_eq_self_iff)
  moreover have "dropWhile isWhitespace (rev t) = rev t" by (simp add: t_def)
  ultimately have "trim t = t" by (simp add: trim_def)
  then show ?thesis by (simp add: trim_def t_def u_def)
qed

lemma isWhitespace_basic: "isWhitespace 0x0A" "isWhitespace 0x09" "isWhitespace 0x20"
  by (simp_all add: isWhitespace_def)

lemma collapsed_clean:
  assumes "collapsed r"
  shows "replaceRuns (\<lambda>c. c = 0x09) (replaceRuns (\<lambda>c. c = 0x0A) (replaceRuns isWhitespace r)) = r"
proof -
  have 1: "replaceRuns isWhitespace r = r" using assms by (rule collapsed_fixed)
  have "\<forall>c \<in> set r. c \<noteq> 0x0A" using collapsed_space[OF assms] isWhitespace_basic by fastforce
  then have 2: "replaceRuns (\<lambda>c. c = 0x0A) r = r" by (simp add: replaceRuns_none)
  have "\<forall>c \<in> set r. c \<noteq> 0x09" using collapsed_space[OF assms] isWhitespace_basic by fastforce
  then have 3: "replaceRuns (\<lambda>c. c = 0x09) r = r" by (simp add: replaceRuns_none)
  show ?thesis by (simp add: 1 2 3)
qed

text \<open>
  Claim C9: \<open>cleanText\<close> is idempotent. For every string \<open>x\<close>, cleaning the cleaned string
  gives the cleaned string again.
\<close>

theorem cleanText_idempotent: "cleanText (cleanText x) = cleanText x"
proof -
  define r where "r = replaceRuns isWhitespace x"
  have cr: "collapsed r" unfolding r_def by (rule collapsed_replaceRuns)
  have "replaceRuns (\<lambda>c. c = 0x09) (replaceRuns (\<lambda>c. c = 0x0A) r) = r"
    using collapsed_clean[OF cr] collapsed_fixed[OF cr] by simp
  then have a: "cleanText x = trim r" by (simp add: cleanText_def r_def)
  have "collapsed (trim r)" using cr by (rule collapsed_trim)
  then have "cleanText (trim r) = trim (trim r)"
    by (simp add: cleanText_def collapsed_clean)
  then show ?thesis by (simp add: a trim_idem)
qed

subsection \<open>The chunking loop\<close>

lemma findFrom_range: "findFrom pat cs k = -1 \<or> int k \<le> findFrom pat cs k"
proof (induction cs arbitrary: k)
  case Nil
  then show ?case by simp
next
  case (Cons c cs)
  from Cons[of "Suc k"] show ?case by auto
qed

lemma indexOf_range:
  assumes "indexOf s pat i \<noteq> -1" and "i \<le> int (length s)"
  shows "i \<le> indexOf s pat i"
proof -
  define p where "p = nat (min (max i 0) (int (length s)))"
  have "indexOf s pat i = findFrom pat (drop p s) p" by (simp add: indexOf_def p_def Let_def)
  moreover have "i \<le> int p" using assms(2) by (simp add: p_def)
  ultimately show ?thesis using findFrom_range[of pat "drop p s" p] assms(1) by auto
qed

lemma breakPoints_hd:
  assumes "breakPoints s e = b # bs" and "e \<le> int (length s)"
  shows "e \<le> b"
proof -
  have "b \<in> set (breakPoints s e)" using assms(1) by simp
  then have "b \<noteq> -1" and
    "b = indexOf s (js ''.'') e \<or> b = indexOf s (js ''?'') e \<or> b = indexOf s (js ''!'') e"
    by (auto simp: breakPoints_def split: if_splits)
  then show ?thesis using indexOf_range[OF _ assms(2)] by metis
qed

lemma chunkEnd_ge: "startIndex + chunkSize \<le> chunkEnd s chunkSize startIndex"
proof (cases "startIndex + chunkSize < int (length s)")
  case True
  then have le: "startIndex + chunkSize \<le> int (length s)" by simp
  have sp: "indexOf s (js '' '') (startIndex + chunkSize) \<noteq> -1
      \<Longrightarrow> startIndex + chunkSize \<le> indexOf s (js '' '') (startIndex + chunkSize)"
    using indexOf_range[OF _ le] by simp
  show ?thesis
  proof (cases "breakPoints s (startIndex + chunkSize)")
    case Nil
    with True sp show ?thesis by (simp add: chunkEnd_def Let_def)
  next
    case (Cons b bs)
    from breakPoints_hd[OF Cons le] have "startIndex + chunkSize \<le> b" .
    with True sp Cons show ?thesis by (simp add: chunkEnd_def Let_def)
  qed
next
  case False
  then show ?thesis by (simp add: chunkEnd_def Let_def)
qed

lemma chunkEnd_le: "chunkEnd s chunkSize startIndex \<le> startIndex + chunkSize + 100"
  by (cases "breakPoints s (startIndex + chunkSize)") (simp_all add: chunkEnd_def Let_def)

lemma chunkLoop_progress:
  "overlap < chunkSize \<Longrightarrow> startIndex < chunkEnd s chunkSize startIndex - overlap"
  using chunkEnd_ge[of startIndex chunkSize s] by simp




lemma chunkLoop_windows:
  assumes "overlap < chunkSize"
  shows "nat (int (length s) - startIndex) \<le> n \<Longrightarrow>
     chunkLoop s chunkSize overlap startIndex chunks
       = Some (chunks @ map (chunkOf s) (windowsFuel n s chunkSize overlap startIndex))"
proof (induction n arbitrary: startIndex chunks)
  case 0
  then have "\<not> startIndex < int (length s)" by simp
  then show ?case by (subst chunkLoop.simps) simp
next
  case (Suc n)
  show ?case
  proof (cases "startIndex < int (length s)")
    case True
    let ?e = "chunkEnd s chunkSize startIndex"
    have "startIndex < ?e - overlap" using assms by (rule chunkLoop_progress)
    with Suc.prems True have "nat (int (length s) - (?e - overlap)) \<le> n" by linarith
    from Suc.IH[OF this, of "chunks @ [trim (substring s startIndex ?e)]"] True
    show ?thesis by (subst chunkLoop.simps) (simp add: Let_def chunkOf_def)
  next
    case False
    then show ?thesis by (subst chunkLoop.simps) simp
  qed
qed

lemma chunkLoop_terminates:
  assumes "overlap < chunkSize"
  shows "\<exists>r. chunkLoop s chunkSize overlap startIndex chunks = Some r"
  using chunkLoop_windows[OF assms, of s startIndex "nat (int (length s) - startIndex)" chunks]
  by simp













lemma findFrom_upper: "findFrom pat cs k \<le> int k + int (length cs)"
proof (induction cs arbitrary: k)
  case Nil
  then show ?case by simp
next
  case (Cons c cs)
  from Cons[of "Suc k"] show ?case by auto
qed

lemma indexOf_bounds: "- 1 \<le> indexOf s pat i" "indexOf s pat i \<le> int (length s)"
proof -
  define p where "p = nat (min (max i 0) (int (length s)))"
  have e: "indexOf s pat i = findFrom pat (drop p s) p" by (simp add: indexOf_def p_def Let_def)
  have "p \<le> length s" by (simp add: p_def)
  then show "indexOf s pat i \<le> int (length s)"
    using findFrom_upper[of pat "drop p s" p] by (simp add: e)
  show "- 1 \<le> indexOf s pat i"
    using findFrom_range[of pat "drop p s" p] by (auto simp: e)
qed

lemma breakPoints_hd_upper:
  assumes "breakPoints s e = b # bs"
  shows "b \<le> int (length s)"
proof -
  have "b \<in> set (breakPoints s e)" using assms by simp
  then have
    "b = indexOf s (js ''.'') e \<or> b = indexOf s (js ''?'') e \<or> b = indexOf s (js ''!'') e"
    by (auto simp: breakPoints_def split: if_splits)
  then show ?thesis using indexOf_bounds(2) by metis
qed

lemma toDouble_int_diff:
  "\<bar>a - b\<bar> < 2 ^ 53 \<Longrightarrow> toDouble (real_of_int a - real_of_int b) = real_of_int a - real_of_int b"
  using toDouble_of_int[of "a - b"] by simp

lemma toDouble_int_sum:
  "\<bar>a + b\<bar> < 2 ^ 53 \<Longrightarrow> toDouble (real_of_int a + real_of_int b) = real_of_int a + real_of_int b"
  using toDouble_of_int[of "a + b"] by simp

lemma toDouble_int_succ:
  "\<bar>b + 1\<bar> < 2 ^ 53 \<Longrightarrow> toDouble (real_of_int b + 1) = real_of_int b + 1"
  using toDouble_of_int[of "b + 1"] by simp

lemma chunkEndNumber_of_int:
  assumes "0 \<le> st" and "st < int (length s)" and "int (length s) \<le> 2 ^ 51" and "\<bar>cs\<bar> \<le> 2 ^ 51"
  shows "chunkEndNumber s (of_int cs) (of_int st) = of_int (chunkEnd s cs st)"
proof -
  define e where "e = st + cs"
  have eb: "\<bar>e\<bar> < 2 ^ 53" using assms by (simp add: e_def)
  have e0: "toDouble (real_of_int st + real_of_int cs) = real_of_int e"
    using toDouble_of_int[OF eb] by (simp add: e_def)
  define ns where "ns = indexOf s (js '' '') e"
  have nsb: "\<bar>ns - e\<bar> < 2 ^ 53"
    using indexOf_bounds[of s "js '' ''" e] assms eb by (simp add: ns_def e_def)
  have sp: "toDouble (real_of_int ns - real_of_int e) = real_of_int (ns - e)"
    using toDouble_int_diff[OF nsb] by simp
  have space: "(let nextSpace = indexOf s (js '' '') (toInteger (real_of_int e))
         in if nextSpace \<noteq> -1 \<and> toDouble (of_int nextSpace - real_of_int e) < 50
            then of_int nextSpace else real_of_int e)
      = real_of_int (let nextSpace = indexOf s (js '' '') e
         in if nextSpace \<noteq> -1 \<and> nextSpace - e < 50 then nextSpace else e)"
    unfolding Let_def toInteger_of_int ns_def[symmetric] sp
    by (simp del: of_int_diff)
  show ?thesis
  proof (cases "e < int (length s)")
    case False
    then show ?thesis
      unfolding chunkEndNumber_def chunkEnd_def Let_def e0 e_def[symmetric] by simp
  next
    case True
    then have lt: "real_of_int e < real (length s)" by simp
    show ?thesis
    proof (cases "breakPoints s e")
      case Nil
      with True lt space show ?thesis
        unfolding chunkEndNumber_def chunkEnd_def e0 e_def[symmetric]
        by (simp add: toInteger_of_int Let_def)
    next
      case (Cons b bs)
      have bl: "b \<le> int (length s)" by (rule breakPoints_hd_upper[OF Cons])
      have bu: "e \<le> b" using breakPoints_hd[OF Cons] True by simp
      have "\<bar>b - e\<bar> < 2 ^ 53" using bl bu assms by (simp add: e_def)
      then have d1: "toDouble (real_of_int b - real_of_int e) = real_of_int (b - e)"
        using toDouble_int_diff[of b e] by simp
      have "\<bar>b + 1\<bar> < 2 ^ 53" using bl bu assms by (simp add: e_def)
      then have d2: "toDouble (real_of_int b + 1) = real_of_int (b + 1)"
        using toDouble_int_succ[of b] by simp
      have c: "(toDouble (real_of_int b - real_of_int e) < 100) = (b - e < 100)"
        unfolding d1 by (simp del: of_int_diff)
      from True lt space Cons show ?thesis
        unfolding chunkEndNumber_def chunkEnd_def e0 e_def[symmetric]
        by (simp add: toInteger_of_int Let_def c d2)
    qed
  qed
qed

lemma chunkLoopNumber_of_int:
  assumes "ov < cs" and "\<bar>cs\<bar> \<le> 2 ^ 51" and "\<bar>ov\<bar> \<le> 2 ^ 51" and "int (length s) \<le> 2 ^ 51"
  shows "nat (int (length s) - st) \<le> n \<Longrightarrow> 0 \<le> st \<Longrightarrow>
     chunkLoopNumber s (of_int cs) (of_int ov) (of_int st) acc = chunkLoop s cs ov st acc"
proof (induction n arbitrary: st acc)
  case 0
  then have "\<not> st < int (length s)" by simp
  then show ?case by (subst chunkLoopNumber.simps, subst chunkLoop.simps) simp
next
  case (Suc n)
  show ?case
  proof (cases "st < int (length s)")
    case False
    then show ?thesis by (subst chunkLoopNumber.simps, subst chunkLoop.simps) simp
  next
    case True
    define e where "e = chunkEnd s cs st"
    have en: "chunkEndNumber s (of_int cs) (of_int st) = of_int e"
      unfolding e_def using Suc.prems(2) True assms(4,2) by (rule chunkEndNumber_of_int)
    have ge: "st + cs \<le> e" and le: "e \<le> st + cs + 100"
      using chunkEnd_ge[of st cs s] chunkEnd_le[of s cs st] by (simp_all add: e_def)
    have "\<bar>e - ov\<bar> < 2 ^ 53" using ge le assms True Suc.prems(2) by simp
    then have nx: "toDouble (real_of_int e - real_of_int ov) = real_of_int (e - ov)"
      using toDouble_int_diff[of e ov] by simp
    have prog: "st < e - ov" using ge assms(1) by simp
    then have fuel: "nat (int (length s) - (e - ov)) \<le> n" and nn: "0 \<le> e - ov"
      using Suc.prems True by linarith+
    have IH: "chunkLoopNumber s (of_int cs) (of_int ov) (real_of_int (e - ov))
          (acc @ [trim (substring s st e)])
        = chunkLoop s cs ov (e - ov) (acc @ [trim (substring s st e)])"
      by (rule Suc.IH[OF fuel nn])
    have lt: "real_of_int st < real (length s)" using True by simp
    have l: "chunkLoopNumber s (of_int cs) (of_int ov) (of_int st) acc
        = chunkLoopNumber s (of_int cs) (of_int ov) (real_of_int (e - ov))
            (acc @ [trim (substring s st e)])"
      by (subst chunkLoopNumber.simps) (simp only: lt if_True Let_def en nx toInteger_of_int)
    have r: "chunkLoop s cs ov st acc = chunkLoop s cs ov (e - ov) (acc @ [trim (substring s st e)])"
      by (subst chunkLoop.simps) (simp only: True if_True Let_def e_def)
    show ?thesis unfolding l r by (rule IH)
  qed
qed

lemma chunkDocumentNumber_of_int:
  assumes "ov < cs" and "\<bar>cs\<bar> \<le> 2 ^ 51" and "\<bar>ov\<bar> \<le> 2 ^ 51" and "int (length s) \<le> 2 ^ 51"
  shows "chunkDocumentNumber s (of_int cs) (of_int ov) = chunkDocument s cs ov"
proof -
  have c: "(real (length s) \<le> real_of_int cs) = (int (length s) \<le> cs)" by linarith
  have "chunkLoopNumber s (of_int cs) (of_int ov) (of_int 0) [] = chunkLoop s cs ov 0 []"
    using chunkLoopNumber_of_int[OF assms, of 0 "nat (int (length s))" "[]"] by simp
  then show ?thesis by (simp add: chunkDocumentNumber_def chunkDocument_def c)
qed

lemma nextStart_of_int:
  assumes "0 \<le> st" and "st < int (length s)" and "int (length s) \<le> 2 ^ 51"
    and "\<bar>cs\<bar> \<le> 2 ^ 51" and "\<bar>ov\<bar> \<le> 2 ^ 51"
  shows "toDouble (chunkEndNumber s (of_int cs) (of_int st) - of_int ov)
           = of_int (chunkEnd s cs st - ov)"
proof -
  define e where "e = chunkEnd s cs st"
  have en: "chunkEndNumber s (of_int cs) (of_int st) = of_int e"
    unfolding e_def using assms(1-4) by (rule chunkEndNumber_of_int)
  have "st + cs \<le> e" and "e \<le> st + cs + 100"
    using chunkEnd_ge[of st cs s] chunkEnd_le[of s cs st] by (simp_all add: e_def)
  then have "\<bar>e - ov\<bar> < 2 ^ 53" using assms by simp
  then show ?thesis unfolding en e_def[symmetric] using toDouble_int_diff[of e ov] by simp
qed

lemma aaa_breaks: "breakPoints (js ''aaa'') 1 = []" "indexOf (js ''aaa'') (js '' '') 1 = -1"
  by code_simp+

lemma aaa_len: "length (js ''aaa'') = 3"
  by (simp add: js_def)

lemma aaa_end0: "chunkEndNumber (js ''aaa'') 1 0 = 1"
  by (simp add: chunkEndNumber_def toDouble_one toInteger_def aaa_breaks aaa_len)

lemma aaa_end1: "chunkEndNumber (js ''aaa'') 1 (2 powi (- 53)) = 1"
  by (simp add: chunkEndNumber_def toDouble_tie toInteger_def aaa_breaks aaa_len
      del: power_int_numeral_neg_numeral)

lemma aaa_next: "toDouble (1 - (1 - 2 powi (- 53))) = 2 powi (- 53)"
  using toDouble_tiny by simp

lemma aaa_stuck:
  assumes "chunkLoopNumber s chunkSize overlap startIndex chunks = Some r"
  shows "\<not> (s = js ''aaa'' \<and> chunkSize = 1 \<and> overlap = 1 - 2 powi (- 53)
            \<and> startIndex = 2 powi (- 53))"
proof (rule chunkLoopNumber.raw_induct[where P = "\<lambda>s chunkSize overlap startIndex chunks r.
    \<not> (s = js ''aaa'' \<and> chunkSize = 1 \<and> overlap = 1 - 2 powi (- 53)
            \<and> startIndex = 2 powi (- 53))", OF _ assms])
  fix f :: "jsstring \<Rightarrow> real \<Rightarrow> real \<Rightarrow> real \<Rightarrow> jsstring list \<Rightarrow> jsstring list option"
  fix s chunkSize overlap startIndex chunks r
  assume IH: "\<And>s chunkSize overlap startIndex chunks r.
      f s chunkSize overlap startIndex chunks = Some r \<Longrightarrow>
      \<not> (s = js ''aaa'' \<and> chunkSize = 1 \<and> overlap = 1 - 2 powi (- 53)
            \<and> startIndex = 2 powi (- 53))"
  assume eq: "(if startIndex < real (length s)
      then let endIndex = chunkEndNumber s chunkSize startIndex
           in f s chunkSize overlap (toDouble (endIndex - overlap))
                (chunks @ [trim (substring s (toInteger startIndex) (toInteger endIndex))])
      else Some chunks) = Some r"
  show "\<not> (s = js ''aaa'' \<and> chunkSize = 1 \<and> overlap = 1 - 2 powi (- 53)
            \<and> startIndex = 2 powi (- 53))"
  proof
    assume a: "s = js ''aaa'' \<and> chunkSize = 1 \<and> overlap = 1 - 2 powi (- 53)
            \<and> startIndex = 2 powi (- 53)"
    have lt: "(2::real) powi (- 53) < real (length (js ''aaa''))" by (simp add: aaa_len)
    from eq a lt have "f (js ''aaa'') 1 (1 - 2 powi (- 53)) (2 powi (- 53))
        (chunks @ [trim (substring (js ''aaa'') (toInteger (2 powi (- 53))) (toInteger 1))]) = Some r"
      by (simp only: aaa_end1 aaa_next Let_def if_True)
    from IH[OF this] show False by simp
  qed
qed

lemma double_literal: "toDouble (9999999999999999 / 10 ^ 16) = 1 - 2 powi (- 53)"
proof -
  define x :: real where "x = 9999999999999999 / 10 ^ 16"
  have x: "0 < x" "2 powi (- 1) \<le> x" "x < 2 powi (- 1 + 1)" by (simp_all add: x_def)
  have "\<lfloor>log 2 x\<rfloor> = - 1" by (rule binade_unique[OF x])
  then have q: "quantumExp x = - 53" using x(1) by (simp add: quantumExp_def)
  have r: "roundHalfEven (\<bar>x\<bar> / 2 powi (- 53)) = 9007199254740991"
    by (simp add: roundHalfEven_def x_def)
  show ?thesis using x(1) unfolding x_def[symmetric] toDouble_def q r by simp
qed

text \<open>
  Claim C7, as the specification states it, fails: the sizes are numbers, and for sizes
  that are not integers the rounding can leave \<^verbatim>\<open>startIndex\<close> where it is. With
  \<open>chunkSize = 1\<close> and \<open>overlap = 1 - 2^-53\<close>, the number below 1 that is written
  \<^verbatim>\<open>0.9999999999999999\<close>, the text \<^verbatim>\<open>aaa\<close> is never chunked to the end: after the first
  chunk \<^verbatim>\<open>startIndex\<close> is \<open>2^-53\<close>, \<^verbatim>\<open>endIndex\<close> is \<open>2^-53 + 1\<close> rounded, which is 1, and the
  next \<^verbatim>\<open>startIndex\<close> is \<open>2^-53\<close> again.
\<close>

theorem chunkDocument_never_returns:
  "chunkDocumentNumber (js ''aaa'') 1 (1 - 2 powi (- 53)) = None
   \<and> (1 - 2 powi (- 53) :: real) < 1
   \<and> toDouble (1 - 2 powi (- 53)) = 1 - 2 powi (- 53)
   \<and> toDouble (9999999999999999 / 10 ^ 16) = 1 - 2 powi (- 53)"
proof -
  have "chunkLoopNumber (js ''aaa'') 1 (1 - 2 powi (- 53)) (2 powi (- 53)) chunks = None" for chunks
    using aaa_stuck[of "js ''aaa''" 1 "1 - 2 powi (- 53)" "2 powi (- 53)" chunks]
    by (cases "chunkLoopNumber (js ''aaa'') 1 (1 - 2 powi (- 53)) (2 powi (- 53)) chunks") auto
  moreover have "chunkLoopNumber (js ''aaa'') 1 (1 - 2 powi (- 53)) 0 []
      = chunkLoopNumber (js ''aaa'') 1 (1 - 2 powi (- 53)) (2 powi (- 53))
          ([] @ [trim (substring (js ''aaa'') (toInteger 0) (toInteger 1))])"
    by (subst chunkLoopNumber.simps)
      (simp add: aaa_end0 toDouble_tiny aaa_len Let_def del: power_int_numeral_neg_numeral)
  ultimately have 1: "chunkDocumentNumber (js ''aaa'') 1 (1 - 2 powi (- 53)) = None"
    by (simp add: chunkDocumentNumber_def aaa_len)
  have "(1 - 2 powi (- 53) :: real) = of_int (2 ^ 53 - 1) * 2 powi (- 53)" by simp
  then have 3: "toDouble (1 - 2 powi (- 53)) = 1 - 2 powi (- 53)"
    using toDouble_exact[of "2 ^ 53 - 1" "- 53"] by simp
  from 1 3 double_literal show ?thesis by simp
qed

text \<open>
  Claim C7, amended: for sizes that are integers with \<open>overlap < chunkSize\<close>,
  \<open>chunkDocument\<close> terminates for every text, and every iteration of the loop moves
  \<open>startIndex\<close> forward: the start of the next window, \<open>chunkEnd s chunkSize startIndex -
  overlap\<close>, is greater than \<open>startIndex\<close>. For integer sizes of magnitude at most \<open>2^51\<close> and
  texts of at most \<open>2^51\<close> characters the arithmetic on numbers is exact: the function on
  numbers returns the same chunks, and its next \<^verbatim>\<open>startIndex\<close> is that integer.
\<close>

theorem chunkDocument_terminates:
  assumes "overlap < chunkSize"
  shows "(\<exists>chunks. chunkDocument s chunkSize overlap = Some chunks)
     \<and> (\<forall>startIndex. startIndex < chunkEnd s chunkSize startIndex - overlap)
     \<and> (\<bar>chunkSize\<bar> \<le> 2 ^ 51 \<and> \<bar>overlap\<bar> \<le> 2 ^ 51 \<and> int (length s) \<le> 2 ^ 51 \<longrightarrow>
          chunkDocumentNumber s (of_int chunkSize) (of_int overlap)
            = chunkDocument s chunkSize overlap
          \<and> (\<forall>startIndex. 0 \<le> startIndex \<and> startIndex < int (length s) \<longrightarrow>
                toDouble (chunkEndNumber s (of_int chunkSize) (of_int startIndex) - of_int overlap)
                  = of_int (chunkEnd s chunkSize startIndex - overlap)))"
proof -
  have 1: "\<exists>chunks. chunkDocument s chunkSize overlap = Some chunks"
    using chunkLoop_terminates[OF assms, of s 0 "[]"] by (simp add: chunkDocument_def)
  have 2: "\<forall>startIndex. startIndex < chunkEnd s chunkSize startIndex - overlap"
    using chunkLoop_progress[OF assms, of _ s] by simp
  have 3: "\<bar>chunkSize\<bar> \<le> 2 ^ 51 \<and> \<bar>overlap\<bar> \<le> 2 ^ 51 \<and> int (length s) \<le> 2 ^ 51 \<longrightarrow>
          chunkDocumentNumber s (of_int chunkSize) (of_int overlap)
            = chunkDocument s chunkSize overlap
          \<and> (\<forall>startIndex. 0 \<le> startIndex \<and> startIndex < int (length s) \<longrightarrow>
                toDouble (chunkEndNumber s (of_int chunkSize) (of_int startIndex) - of_int overlap)
                  = of_int (chunkEnd s chunkSize startIndex - overlap))"
    using chunkDocumentNumber_of_int[OF assms, of s] nextStart_of_int[of _ s chunkSize overlap]
    by blast
  from 1 2 3 show ?thesis by blast
qed

theorem chunkDocument_terminates_witness:
  "(3::int) < 10
   \<and> (\<exists>chunks. chunkDocument (js ''One. Two three four? Yes!'') 10 3 = Some chunks)
   \<and> (0::int) < chunkEnd (js ''One. Two three four? Yes!'') 10 0 - 3
   \<and> chunkDocumentNumber (js ''One. Two three four? Yes!'') 10 3
       = chunkDocument (js ''One. Two three four? Yes!'') 10 3"
proof -
  have b: "\<bar>10::int\<bar> \<le> 2 ^ 51 \<and> \<bar>3::int\<bar> \<le> 2 ^ 51
      \<and> int (length (js ''One. Two three four? Yes!'')) \<le> 2 ^ 51"
    by (simp add: js_def)
  have h: "(3::int) < 10" by simp
  from chunkDocument_terminates[OF h, of "js ''One. Two three four? Yes!''"] b h
  show ?thesis by simp
qed






section \<open>Properties of the vector store\<close>


lemma ensureCollection_collection:
  "ensureCollection st = (Inr c, st') \<Longrightarrow> collection st' = Some c"
  by (auto simp: ensureCollection_def split: prod.splits sum.splits option.splits if_splits)





lemma mapResults_length:
  "length (mapResults results) = (case ids results of [] \<Rightarrow> 0 | row # _ \<Rightarrow> length row)"
  by (simp add: mapResults_def split: list.splits)

lemma mapResults_score:
  "i < length (mapResults results) \<Longrightarrow>
   score (mapResults results ! i) = toDouble (1 - orZero (distanceAt results i))"
  by (auto simp: mapResults_def toResult_def split: list.splits if_splits)

lemma mapResults_ids:
  "map res_id (mapResults results) = (case ids results of [] \<Rightarrow> [] | row # _ \<Rightarrow> row)"
  by (auto simp: mapResults_def toResult_def map_nth split: list.splits
      intro!: nth_equalityI)

lemma mapResults_content:
  "map res_content (mapResults results)
     = (case ids results of [] \<Rightarrow> [] | row # _ \<Rightarrow> map (contentAt results) [0..<length row])"
  by (auto simp: mapResults_def toResult_def split: list.splits)

lemma similaritySearch_result:
  assumes "similaritySearch st query limit = (Inr rs, st')"
  shows "\<exists>c results. collection st' = Some c \<and> coll_query c query limit = Inr results
           \<and> rs = mapResults results"
proof -
  obtain r st1 where e: "ensureCollection st = (r, st1)" by (cases "ensureCollection st")
  with assms obtain c where c: "r = Inr c"
    by (cases r) (auto simp: similaritySearch_def)
  with assms e obtain results where q: "coll_query c query limit = Inr results"
    by (cases "coll_query c query limit") (auto simp: similaritySearch_def)
  with assms e c have "rs = mapResults results" and "st' = st1"
    by (auto simp: similaritySearch_def)
  moreover have "collection st1 = Some c" using e c ensureCollection_collection by blast
  ultimately show ?thesis using q by blast
qed

text \<open>
  Claim C3, as the specification states it, fails. When the response of the store has no
  list of distances, the distance counts as 1 and the score is 0, not 1. And the results
  are in the order of the response, which the code does not sort: a response whose
  distances decrease gives scores that increase.
\<close>

theorem similaritySearch_score_defaults:
  "map score (projr (fst (similaritySearch
       (newStore (localClient (answeringCollection
          \<lparr>ids = [[js ''a'']], documents = Some [[Some (js ''X'')]], metadatas = None,
           distances = None\<rparr>)))
       (js ''X'') 5))) = [0]
   \<and> map score (projr (fst (similaritySearch
       (newStore (localClient (answeringCollection
          \<lparr>ids = [[js ''a'', js ''b'']], documents = None, metadatas = None,
           distances = Some [[Some 1, Some 0]]\<rparr>)))
       (js ''X'') 5))) = [0, 1]"
  by (simp add: similaritySearch_def ensureCollection_def initialize_def newStore_def
      localClient_def answeringCollection_def mapResults_def toResult_def distanceAt_def
      orZero_def upt_rec toDouble_zero toDouble_one)

text \<open>
  Claim C3, amended: every successful \<open>similaritySearch\<close> returns the mapping of a response
  \<open>results\<close> of the store's query: one result for each identifier of the first row of
  identifiers, with that identifier, in the order of the response (the code does not
  sort). When the response has a first row of distances, the score of the result at
  index \<open>i\<close> is 1 minus the distance \<open>d\<close> that the row reports at \<open>i\<close>, as numbers subtract
  (the rounded difference), and 1 when the row reports no distance at \<open>i\<close>; and of two
  results with reported distances, the one with the distance that is not the greater has
  the score that is not the smaller, so that the scores descend whenever the distances
  of the response ascend. (A response with no row of distances is left out of this
  statement.)
\<close>

theorem similaritySearch_scores:
  assumes "similaritySearch st query limit = (Inr rs, st')"
  shows "\<exists>c results. collection st' = Some c \<and> coll_query c query limit = Inr results
     \<and> map res_id rs = (case ids results of [] \<Rightarrow> [] | row # _ \<Rightarrow> row)
     \<and> (\<forall>row rest i d. distances results = Some (row # rest) \<and> i < length rs
           \<and> nth_opt row i = Some (Some d) \<longrightarrow> score (rs ! i) = toDouble (1 - d))
     \<and> (\<forall>row rest i. distances results = Some (row # rest) \<and> i < length rs
           \<and> (nth_opt row i = None \<or> nth_opt row i = Some None) \<longrightarrow> score (rs ! i) = 1)
     \<and> (\<forall>row rest i j di dj. distances results = Some (row # rest)
           \<and> i < length rs \<and> j < length rs
           \<and> nth_opt row i = Some (Some di) \<and> nth_opt row j = Some (Some dj) \<and> di \<le> dj
           \<longrightarrow> score (rs ! j) \<le> score (rs ! i))"
proof -
  from similaritySearch_result[OF assms] obtain c results where
    c: "collection st' = Some c" and q: "coll_query c query limit = Inr results"
    and rs: "rs = mapResults results" by blast
  have 1: "map res_id rs = (case ids results of [] \<Rightarrow> [] | row # _ \<Rightarrow> row)"
    by (simp add: rs mapResults_ids)
  have 3: "\<forall>row rest i d. distances results = Some (row # rest) \<and> i < length rs
           \<and> nth_opt row i = Some (Some d) \<longrightarrow> score (rs ! i) = toDouble (1 - d)"
    by (auto simp: rs mapResults_score distanceAt_def orZero_def)
  have 4: "\<forall>row rest i. distances results = Some (row # rest) \<and> i < length rs
           \<and> (nth_opt row i = None \<or> nth_opt row i = Some None) \<longrightarrow> score (rs ! i) = 1"
    by (auto simp: rs mapResults_score distanceAt_def orZero_def toDouble_one)
  have 5: "\<forall>row rest i j di dj. distances results = Some (row # rest)
           \<and> i < length rs \<and> j < length rs
           \<and> nth_opt row i = Some (Some di) \<and> nth_opt row j = Some (Some dj) \<and> di \<le> dj
           \<longrightarrow> score (rs ! j) \<le> score (rs ! i)"
  proof (intro allI impI)
    fix row rest i j di dj
    assume a: "distances results = Some (row # rest)
           \<and> i < length rs \<and> j < length rs
           \<and> nth_opt row i = Some (Some di) \<and> nth_opt row j = Some (Some dj) \<and> di \<le> dj"
    then have "score (rs ! i) = toDouble (1 - di)" and "score (rs ! j) = toDouble (1 - dj)"
      using 3 by blast+
    moreover have "toDouble (1 - dj) \<le> toDouble (1 - di)"
      using a by (intro toDouble_mono) simp
    ultimately show "score (rs ! j) \<le> score (rs ! i)" by simp
  qed
  from c q 1 3 4 5 show ?thesis by blast
qed

theorem similaritySearch_scores_witness:
  "similaritySearch
       (newStore (localClient (answeringCollection
          \<lparr>ids = [[js ''a'', js ''b'']], documents = None, metadatas = None,
           distances = Some [[Some (1/4), None]]\<rparr>)))
       (js ''X'') 5
     = (Inr [\<lparr>res_id = js ''a'', res_content = [], res_metadata = [], score = 3/4\<rparr>,
             \<lparr>res_id = js ''b'', res_content = [], res_metadata = [], score = 1\<rparr>],
        \<lparr>client = localClient (answeringCollection
            \<lparr>ids = [[js ''a'', js ''b'']], documents = None, metadatas = None,
             distances = Some [[Some (1/4), None]]\<rparr>),
         collection = Some (answeringCollection
            \<lparr>ids = [[js ''a'', js ''b'']], documents = None, metadatas = None,
             distances = Some [[Some (1/4), None]]\<rparr>),
         isInitialized = True\<rparr>)
   \<and> (\<exists>(c::collection) (results::queryResponse). coll_query c (js ''X'') 5 = Inr results
         \<and> map res_id
               [\<lparr>res_id = js ''a'', res_content = [], res_metadata = [], score = 3/4\<rparr>,
                \<lparr>res_id = js ''b'', res_content = [], res_metadata = [], score = 1::real\<rparr>]
             = (case ids results of [] \<Rightarrow> [] | row # _ \<Rightarrow> row))"
proof -
  have e: "similaritySearch
       (newStore (localClient (answeringCollection
          \<lparr>ids = [[js ''a'', js ''b'']], documents = None, metadatas = None,
           distances = Some [[Some (1/4), None]]\<rparr>)))
       (js ''X'') 5
     = (Inr [\<lparr>res_id = js ''a'', res_content = [], res_metadata = [], score = 3/4\<rparr>,
             \<lparr>res_id = js ''b'', res_content = [], res_metadata = [], score = 1\<rparr>],
        \<lparr>client = localClient (answeringCollection
            \<lparr>ids = [[js ''a'', js ''b'']], documents = None, metadatas = None,
             distances = Some [[Some (1/4), None]]\<rparr>),
         collection = Some (answeringCollection
            \<lparr>ids = [[js ''a'', js ''b'']], documents = None, metadatas = None,
             distances = Some [[Some (1/4), None]]\<rparr>),
         isInitialized = True\<rparr>)"
    by (simp add: similaritySearch_def ensureCollection_def initialize_def newStore_def
        localClient_def mapResults_def toResult_def distanceAt_def contentAt_def
        metadataAt_def orZero_def upt_rec answeringCollection_def toDouble_one
        toDouble_three_quarters)
  have "\<exists>(c::collection) (results::queryResponse). coll_query c (js ''X'') 5 = Inr results
         \<and> map res_id
               [\<lparr>res_id = js ''a'', res_content = [], res_metadata = [], score = 3/4\<rparr>,
                \<lparr>res_id = js ''b'', res_content = [], res_metadata = [], score = 1::real\<rparr>]
             = (case ids results of [] \<Rightarrow> [] | row # _ \<Rightarrow> row)"
    using similaritySearch_scores[OF e] by blast
  with e show ?thesis by (rule conjI)
qed

section \<open>Properties of the analyzer\<close>

text \<open>
  Claim C8: with the company profile of one certification ``ISO 9001'', five years of
  experience in ``IT'' and the capability ``Cloud'' (whatever its name and registrations),
  \<open>checkRequirementMet\<close> holds for ``Must have ISO 9001 certification'' and does not hold
  for ``Must have 10 years experience''.
\<close>

theorem checkRequirementMet_fixed_profile:
  "checkRequirementMet
     \<lparr>companyName = name, certifications = [js ''ISO 9001''], experience = [(js ''IT'', 5)],
      capabilities = [js ''Cloud''], registrations = regs\<rparr>
     (js ''Must have ISO 9001 certification'')
   \<and> \<not> checkRequirementMet
     \<lparr>companyName = name, certifications = [js ''ISO 9001''], experience = [(js ''IT'', 5)],
      capabilities = [js ''Cloud''], registrations = regs\<rparr>
     (js ''Must have 10 years experience'')"
proof -
  have 1: "includes_str (toLowerCase (js ''Must have ISO 9001 certification'')) (js ''certification'')"
    by code_simp
  have 2: "includes_str (toLowerCase (js ''Must have ISO 9001 certification''))
             (toLowerCase (js ''ISO 9001''))"
    by code_simp
  have 3: "\<not> includes_str (toLowerCase (js ''Must have 10 years experience'')) (js ''certification'')"
    by code_simp
  have 4: "\<not> includes_str (toLowerCase (js ''Must have 10 years experience'')) (js ''certified'')"
    by code_simp
  have 5: "experienceMatch (js ''Must have 10 years experience'') = Some (js ''10'')"
    by code_simp
  have 6: "parseInt (js ''10'') = 10"
    by code_simp
  show ?thesis by (simp add: checkRequirementMet_def 1 2 3 4 5 6)
qed

lemma checkRequirementMet_registrations:
  "checkRequirementMet (company\<lparr>registrations := r\<rparr>) = checkRequirementMet company"
  by (rule ext) (simp add: checkRequirementMet_def split: option.splits)

lemma generateEligibilityReport_registrations:
  "generateEligibilityReport (company\<lparr>registrations := r\<rparr>) = generateEligibilityReport company"
  by (rule ext)+ (simp add: generateEligibilityReport_def)

lemma analyzeEligibility_registrations:
  "analyzeEligibility (company\<lparr>registrations := r\<rparr>) st = analyzeEligibility company st"
proof -
  have "checkStep (company\<lparr>registrations := r\<rparr>) = checkStep company"
    by (rule ext)+ (simp add: checkStep_def checkRequirementMet_registrations)
  then show ?thesis
    by (simp add: analyzeEligibility_def generateEligibilityReport_registrations
        split: prod.splits sum.splits)
qed

text \<open>
  Claim C10: the registrations of the company profile have no influence. Two profiles
  that differ in their registrations only give the same answer of \<open>checkRequirementMet\<close>
  for every requirement line, and the same outcome of \<open>analyzeEligibility\<close> on every
  store: the same error, or the same verdict, the same list of missing requirements
  and the same report.
\<close>

theorem registrations_without_influence:
  "checkRequirementMet (company\<lparr>registrations := r1\<rparr>) requirement
     = checkRequirementMet (company\<lparr>registrations := r2\<rparr>) requirement
   \<and> analyzeEligibility (company\<lparr>registrations := r1\<rparr>) st
     = analyzeEligibility (company\<lparr>registrations := r2\<rparr>) st"
  by (simp add: checkRequirementMet_registrations analyzeEligibility_registrations)

text \<open>
  Claim C5 at a retrieval result of two chunks that share the line
  ``Font size 12 point'' (chunks overlap, so this is what retrieval returns for a line in
  the overlap): the returned \<open>formatRequirements\<close> hold the line once, and the checklist,
  which is rendered from the lists before the duplicates are removed, holds it twice.
\<close>

theorem checklist_rendered_before_deduplication:
  "map_sum id (\<lambda>r. (formatRequirements r, documentRequirements r, deadlines r,
                     submissionChecklist r))
     (fst (extractSubmissionRequirements
        (newStore (localClient (answeringCollection
           \<lparr>ids = [[js ''d-chunk-0'', js ''d-chunk-1'']],
            documents = Some [[Some (js ''Font size 12 point''),
                               Some (js ''Font size 12 point'' @ nl @ js ''Single spacing'')]],
            metadatas = None,
            distances = Some [[Some (1/10), Some (2/10)]]\<rparr>)))))
   = Inr ([js ''Font size 12 point'', js ''Single spacing''], [], [],
          js ''# RFP Submission Checklist'' @ nl @ nl
          @ js ''## Important Deadlines'' @ nl @ nl
          @ js ''- [ ] No specific deadlines found - verify due date in the RFP'' @ nl
          @ nl @ js ''## Format Requirements'' @ nl @ nl
          @ js ''- [ ] Font size 12 point'' @ nl
          @ js ''- [ ] Font size 12 point'' @ nl
          @ js ''- [ ] Single spacing'' @ nl
          @ nl @ js ''## Required Documents'' @ nl @ nl
          @ js ''- [ ] No specific document requirements found - check the RFP for details'' @ nl
          @ nl @ js ''## Final Verification'' @ nl @ nl
          @ js ''- [ ] All forms completely filled out'' @ nl
          @ js ''- [ ] All required signatures included'' @ nl
          @ js ''- [ ] Correct number of copies prepared'' @ nl
          @ js ''- [ ] Proposal properly sealed and marked'' @ nl
          @ js ''- [ ] Delivery method arranged for on-time submission'' @ nl)"
proof -
  define resp :: queryResponse where "resp =
           \<lparr>ids = [[js ''d-chunk-0'', js ''d-chunk-1'']],
            documents = Some [[Some (js ''Font size 12 point''),
                               Some (js ''Font size 12 point'' @ nl @ js ''Single spacing'')]],
            metadatas = None,
            distances = Some [[Some (1/10), Some (2/10)]]\<rparr>"
  have s: "fst (similaritySearch (newStore (localClient (answeringCollection resp)))
        (js ''What are the submission requirements, document format, page limits, and deadlines for this RFP?'')
        10) = Inr (mapResults resp)"
    by (simp add: similaritySearch_def ensureCollection_def initialize_def newStore_def
        localClient_def answeringCollection_def)
  have c: "map res_content (mapResults resp)
      = [js ''Font size 12 point'', js ''Font size 12 point'' @ nl @ js ''Single spacing'']"
    by (simp add: mapResults_content resp_def contentAt_def upt_rec)
  have m: "concat (map (\<lambda>result. f (res_content result)) (mapResults resp))
      = f (js ''Font size 12 point'')
        @ f (js ''Font size 12 point'' @ nl @ js ''Single spacing'')" for f :: "jsstring \<Rightarrow> jsstring list"
  proof -
    have "map (\<lambda>result. f (res_content result)) (mapResults resp)
        = map f (map res_content (mapResults resp))" by (simp add: o_def)
    then show ?thesis by (simp only: c) simp
  qed
  have f1: "extractFormatRequirements (js ''Font size 12 point'') = [js ''Font size 12 point'']"
    by code_simp
  have f2: "extractFormatRequirements (js ''Font size 12 point'' @ nl @ js ''Single spacing'')
      = [js ''Font size 12 point'', js ''Single spacing'']"
    by code_simp
  have d1: "extractDocumentRequirements (js ''Font size 12 point'') = []"
    by code_simp
  have d2: "extractDocumentRequirements (js ''Font size 12 point'' @ nl @ js ''Single spacing'') = []"
    by code_simp
  have t1: "extractDeadlines (js ''Font size 12 point'') = []"
    by code_simp
  have t2: "extractDeadlines (js ''Font size 12 point'' @ nl @ js ''Single spacing'') = []"
    by code_simp
  have u: "uniqueInOrder [js ''Font size 12 point'', js ''Font size 12 point'', js ''Single spacing'']
      = [js ''Font size 12 point'', js ''Single spacing'']"
    by code_simp
  have u0: "uniqueInOrder [] = []"
    by (simp add: uniqueInOrder_def)
  obtain st1 where r: "similaritySearch (newStore (localClient (answeringCollection resp)))
        (js ''What are the submission requirements, document format, page limits, and deadlines for this RFP?'')
        10 = (Inr (mapResults resp), st1)"
    using s by (metis prod.collapse)
  have "map_sum id (\<lambda>r. (formatRequirements r, documentRequirements r, deadlines r,
                     submissionChecklist r))
     (fst (extractSubmissionRequirements (newStore (localClient (answeringCollection resp)))))
   = Inr ([js ''Font size 12 point'', js ''Single spacing''], [], [],
          js ''# RFP Submission Checklist'' @ nl @ nl
          @ js ''## Important Deadlines'' @ nl @ nl
          @ js ''- [ ] No specific deadlines found - verify due date in the RFP'' @ nl
          @ nl @ js ''## Format Requirements'' @ nl @ nl
          @ js ''- [ ] Font size 12 point'' @ nl
          @ js ''- [ ] Font size 12 point'' @ nl
          @ js ''- [ ] Single spacing'' @ nl
          @ nl @ js ''## Required Documents'' @ nl @ nl
          @ js ''- [ ] No specific document requirements found - check the RFP for details'' @ nl
          @ nl @ js ''## Final Verification'' @ nl @ nl
          @ js ''- [ ] All forms completely filled out'' @ nl
          @ js ''- [ ] All required signatures included'' @ nl
          @ js ''- [ ] Correct number of copies prepared'' @ nl
          @ js ''- [ ] Proposal properly sealed and marked'' @ nl
          @ js ''- [ ] Delivery method arranged for on-time submission'' @ nl)"
    unfolding extractSubmissionRequirements_def r
    by (simp add: m f1 f2 d1 d2 t1 t2 u u0 Let_def generateSubmissionChecklist_def
        checklistItems_def) (simp add: js_def)
  then show ?thesis unfolding resp_def .
qed

section \<open>Risk classification of fixed sentences\<close>

text \<open>
  Claim C1, as the specification states it, fails on its second sentence:
  ``This agreement may be terminated by either party.'' contains the word ``terminated''
  and not the keyword ``termination'', so \<open>assessRiskLevel\<close> does not answer Medium for it.
\<close>

theorem terminated_sentence_not_medium:
  "assessRiskLevel (js ''This agreement may be terminated by either party.'') \<noteq> js ''Medium''"
  by code_simp

text \<open>
  Claim C1, amended: ``Vendor agrees to unlimited liability for all damages.'' is
  classified High and is flagged by \<open>extractRiskyClauses\<close>; ``This agreement may be
  terminated by either party.'' contains none of the risk terms, so it is classified Low
  and is not flagged; a sentence that does contain the keyword, ``This agreement is subject
  to termination by either party.'', is flagged and classified Medium.
\<close>

theorem risk_classification_fixed_sentences:
  "assessRiskLevel (js ''Vendor agrees to unlimited liability for all damages.'') = js ''High''
   \<and> extractRiskyClauses (js ''Vendor agrees to unlimited liability for all damages.'')
       = [js ''Vendor agrees to unlimited liability for all damages..'']
   \<and> assessRiskLevel (js ''This agreement may be terminated by either party.'') = js ''Low''
   \<and> extractRiskyClauses (js ''This agreement may be terminated by either party.'') = []
   \<and> extractRiskyClauses (js ''This agreement is subject to termination by either party.'')
       = [js ''This agreement is subject to termination by either party..'']
   \<and> assessRiskLevel (js ''This agreement is subject to termination by either party..'')
       = js ''Medium''"
  by code_simp


end
